theory Spec2Isabelle
  imports Main "HOL-Library.Char_ord" "HOL-Library.List_Lexorder"
begin

section \<open>Python values shared by the two workers\<close>

text \<open>
  The DRS tree builder exists in two generations in this repository:
  \<^verbatim>\<open>esgprep/drs/main.py\<close> (function \<^verbatim>\<open>process\<close> and the driver \<^verbatim>\<open>run\<close>) and
  \<^verbatim>\<open>esgprep/drs/make.py\<close> (class \<^verbatim>\<open>Process\<close>, method \<^verbatim>\<open>__call__\<close>).
  Both are embedded below, statement by statement. Everything they import from modules
  that are not part of the sources at hand (file handlers, path helpers, checksums, the
  tree class, \<^verbatim>\<open>os\<close>) is a field of a record of collaborators, so that each theorem
  holds for every behaviour of those collaborators.
\<close>

datatype exn =
    KeyboardInterrupt
  | OlderUpgrade string string
  | DuplicatedFile string string
  | UnchangedTrackingID string "string option" string "string option"
  | AssertionError
  | AttributeError
  | TypeError
  | ValueError
  | OSError
  | IOError
  | StopIteration
  | OtherException string

text \<open>
  \<^verbatim>\<open>KeyboardInterrupt\<close> is the only member that is not a subclass of Python's
  \<^verbatim>\<open>Exception\<close>; every other constructor is caught by \<^verbatim>\<open>except Exception\<close>.
\<close>

definition LINK_SEPARATOR :: string where
  "LINK_SEPARATOR = '' --> ''"

definition CONTROLLED_ARGS :: "string list" where
  "CONTROLLED_ARGS = [''directory'', ''set_values'', ''set_keys'', ''mode'', ''version'',
     ''root'', ''no_checksum'', ''checksums_from'', ''upgrade_from_latest'',
     ''ignore_from_latest'', ''ignore_from_incoming'']"

definition TREE_FILE :: "string \<Rightarrow> string" where
  \<comment> \<open>\<^verbatim>\<open>'/tmp/DRSTree_{}.pkl'.format(environ['USER'])\<close>, the user name as argument\<close>
  "TREE_FILE user = ''/tmp/DRSTree_'' @ user @ ''.pkl''"

subsection \<open>Strings\<close>

definition is_space :: "char \<Rightarrow> bool" where
  "is_space c = (of_char c \<in> {9, 10, 11, 12, 13, 32 :: nat})"

definition is_digit :: "char \<Rightarrow> bool" where
  "is_digit c = (48 \<le> (of_char c :: nat) \<and> (of_char c :: nat) \<le> 57)"

definition digit_val :: "char \<Rightarrow> int" where
  "digit_val c = int (of_char c) - 48"

definition strip :: "string \<Rightarrow> string" where
  "strip s = rev (dropWhile is_space (rev (dropWhile is_space s)))"

definition digits_int :: "string \<Rightarrow> exn + int" where
  "digits_int s =
     (if s \<noteq> [] \<and> list_all is_digit s
      then Inr (foldl (\<lambda>n c. 10 * n + digit_val c) 0 s)
      else Inl ValueError)"

definition py_int :: "string \<Rightarrow> exn + int" where
  \<comment> \<open>\<^verbatim>\<open>int(s)\<close> of Python 2 on a byte string: blanks around, an optional sign,
      decimal digits; anything else raises \<^verbatim>\<open>ValueError\<close>\<close>
  "py_int s =
     (case strip s of
        [] \<Rightarrow> Inl ValueError
      | c # cs \<Rightarrow>
          if c = CHR ''-'' then (case digits_int cs of Inl e \<Rightarrow> Inl e | Inr n \<Rightarrow> Inr (- n))
          else if c = CHR ''+'' then digits_int cs
          else digits_int (c # cs))"

definition char_lower :: "char \<Rightarrow> char" where
  "char_lower c =
     (if 65 \<le> (of_char c :: nat) \<and> (of_char c :: nat) \<le> 90
      then char_of (of_char c + 32 :: nat) else c)"

definition lower :: "string \<Rightarrow> string" where
  \<comment> \<open>\<^verbatim>\<open>str.lower\<close> on a byte string\<close>
  "lower s = map char_lower s"

definition startswith :: "string \<Rightarrow> string \<Rightarrow> bool" where
  "startswith s p = (take (length p) s = p)"

definition join2 :: "string \<Rightarrow> string \<Rightarrow> string" where
  \<comment> \<open>one round of the loop of \<^verbatim>\<open>posixpath.join\<close>\<close>
  "join2 path b =
     (if startswith b ''/'' then b
      else if path = [] \<or> last path = CHR ''/'' then path @ b
      else path @ ''/'' @ b)"

fun os_path_join :: "string list \<Rightarrow> string" where
  \<comment> \<open>\<^verbatim>\<open>os.path.join(*src)\<close>; every call below passes at least one component\<close>
  "os_path_join [] = []"
| "os_path_join (a # p) = foldl join2 a p"

subsection \<open>The tree, as the workers see it\<close>

text \<open>
  \<^verbatim>\<open>create_leaf\<close> belongs to the tree class, which is not among the sources. A call is
  recorded with its keyword arguments, in call order, in the field \<open>leaves\<close>; an
  argument that a call does not pass is \<open>None\<close>. The source of a leaf is a string in
  most calls and a path object in one call of \<^verbatim>\<open>make.py\<close>.
\<close>

datatype src_arg = SrcStr string | SrcPath "string list"

record leaf_call =
  nodes :: "string list"
  leaf :: "string option"
  label :: string
  src :: src_arg
  mode :: string
  origin :: "string option"
  force :: "bool option"

record ('d, 'p) DRSTree =
  leaves :: "leaf_call list"
  duplicates :: "'d list"
  paths :: "string \<rightharpoonup> 'p"
  hash :: "string \<rightharpoonup> (string \<rightharpoonup> (string \<rightharpoonup> string))"
  commands_file :: "string option"
  drs_version :: string

definition create_leaf :: "leaf_call \<Rightarrow> ('d, 'p) DRSTree \<Rightarrow> ('d, 'p) DRSTree" where
  "create_leaf l tree = tree\<lparr>leaves := leaves tree @ [l]\<rparr>"

record os_world =
  path_exists :: "string \<Rightarrow> bool"
  walk :: "string \<Rightarrow> (string \<times> string list) list"
  readlink :: "string \<Rightarrow> exn + string"
  realpath :: "string \<Rightarrow> string"

text \<open>
  \<open>walk top\<close> lists, for every directory \<^verbatim>\<open>os.walk(top)\<close> visits, the directory and its
  file names (the sub-directory names are not used by the code).
\<close>

record ProcessContext =
  project :: string
  root_ctx :: "string list"
  mode_ctx :: string
  no_checksum :: bool
  upgrade_from_latest :: bool
  ignore_from_latest :: "string list"
  ignore_from_incoming :: "string list"

section \<open>\<^verbatim>\<open>main.py\<close>: the worker \<^verbatim>\<open>process\<close>\<close>

record File =
  filename :: string
  ffp :: string
  size_f :: int
  is_duplicate :: bool

text \<open>
  A \<^verbatim>\<open>DRSPath\<close> object is read through \<^verbatim>\<open>path(...)\<close> and \<^verbatim>\<open>items(...)\<close> with fixed
  keyword arguments; each field below is the value of one such call:
  \<open>path_default\<close> is \<^verbatim>\<open>path()\<close>, \<open>path_root\<close> is \<^verbatim>\<open>path(root=True)\<close>,
  \<open>path_dataset\<close> is \<^verbatim>\<open>path(f_part=False)\<close>,
  \<open>path_latest_root\<close> is \<^verbatim>\<open>path(latest=True, root=True)\<close>,
  \<open>path_dataset_latest_root\<close> is \<^verbatim>\<open>path(f_part=False, latest=True, root=True)\<close>,
  \<open>items_root\<close> is \<^verbatim>\<open>items(root=True)\<close>, \<open>items_down\<close> is \<^verbatim>\<open>items(d_part=False)\<close>,
  \<open>items_down_files\<close> is \<^verbatim>\<open>items(d_part=False, file_folder=True)\<close>,
  \<open>items_dataset_root\<close> is \<^verbatim>\<open>items(f_part=False, version=False, root=True)\<close>,
  \<open>items_files_root\<close> is \<^verbatim>\<open>items(file_folder=True, root=True)\<close>.
\<close>

record DRSPath =
  TREE_VERSION :: string
  v_latest :: "string option"
  v_upgrade :: string
  path_default :: string
  path_root :: string
  path_dataset :: string
  path_latest_root :: string
  path_dataset_latest_root :: string
  items_root :: "string list"
  items_down :: "string list"
  items_down_files :: "string list"
  items_dataset_root :: "string list"
  items_files_root :: "string list"

record handlers =
  File_new :: "string \<Rightarrow> exn + File"
  load_attributes :: "File \<Rightarrow> exn option"
  check_facets :: "File \<Rightarrow> exn option"
  DRSPath_new :: "File \<Rightarrow> exn + DRSPath"
  checksum :: "string \<Rightarrow> string"

text \<open>
  \<open>File_new\<close> is \<^verbatim>\<open>File(ffp)\<close>; \<open>load_attributes\<close> and \<open>check_facets\<close> return the
  exception they raise, if any; \<open>DRSPath_new\<close> is \<^verbatim>\<open>DRSPath(fh.get_drs_parts(...))\<close>.
\<close>

record incoming =
  i_src :: string
  i_dst :: string
  i_filename :: string
  i_latest :: string
  i_size :: int

type_synonym tree_main = "(string, incoming list) DRSTree"

fun hash_files :: "handlers \<Rightarrow> string \<Rightarrow> string list \<Rightarrow> (string \<rightharpoonup> string) \<Rightarrow> (string \<rightharpoonup> string)" where
  \<comment> \<open>lines 75-77, the inner loop\<close>
  "hash_files h root [] m = m"
| "hash_files h root (fname # filenames) m =
     hash_files h root filenames (m(fname \<mapsto> checksum h (os_path_join [root, fname])))"

fun hash_walk :: "handlers \<Rightarrow> (string \<times> string list) list \<Rightarrow> (string \<rightharpoonup> string) \<Rightarrow> (string \<rightharpoonup> string)" where
  \<comment> \<open>line 74, the outer loop\<close>
  "hash_walk h [] m = m"
| "hash_walk h ((root, filenames) # rest) m = hash_walk h rest (hash_files h root filenames m)"

definition fill_hash :: "handlers \<Rightarrow> os_world \<Rightarrow> DRSPath \<Rightarrow> tree_main \<Rightarrow> tree_main" where
  \<comment> \<open>lines 70-77\<close>
  "fill_hash h w fph tree =
     (let dset_nid = path_dataset_latest_root fph in
      if dset_nid \<notin> dom (hash tree)
      then tree\<lparr>hash := (hash tree)(dset_nid \<mapsto>
             [''latest'' \<mapsto> hash_walk h (walk w (path_dataset_latest_root fph)) Map.empty])\<rparr>
      else tree)"

definition check_latest ::
  "handlers \<Rightarrow> os_world \<Rightarrow> ProcessContext \<Rightarrow> File \<Rightarrow> DRSPath \<Rightarrow> tree_main \<Rightarrow> (exn + bool) \<times> tree_main" where
  \<comment> \<open>lines 64-86; the result is the value of \<^verbatim>\<open>fh.is_duplicate\<close> afterwards\<close>
  "check_latest h w cctx fh fph tree =
     (case v_latest fph of
        None \<Rightarrow> (Inr (is_duplicate fh), tree)
      | Some latest \<Rightarrow>
          if latest = [] then (Inr (is_duplicate fh), tree)
          else
            (case py_int (drop 1 (TREE_VERSION fph)) of
               Inl e \<Rightarrow> (Inl e, tree)
             | Inr upgrade_n \<Rightarrow>
                 (case py_int (drop 1 latest) of
                    Inl e \<Rightarrow> (Inl e, tree)
                  | Inr latest_n \<Rightarrow>
                      if upgrade_n \<le> latest_n
                      then (Inl (OlderUpgrade (TREE_VERSION fph) latest), tree)
                      else
                        (let tree1 = (if \<not> no_checksum cctx then fill_hash h w fph tree else tree);
                             latest_file = os_path_join [path_latest_root fph, filename fh]
                         in if path_exists w latest_file
                            then (if checksum h latest_file = checksum h (ffp fh)
                                  then (Inr True, tree1)
                                  else (Inr (is_duplicate fh), tree1))
                            else (Inr (is_duplicate fh), tree1)))))"

definition version_src :: "File \<Rightarrow> DRSPath \<Rightarrow> string" where
  \<comment> \<open>lines 90-92 and \<^verbatim>\<open>os.path.join(*src)\<close>\<close>
  "version_src fh fph =
     os_path_join (replicate (length (items_down fph)) ''..'' @ items_down_files fph @ [filename fh])"

definition version_leaf :: "File \<Rightarrow> DRSPath \<Rightarrow> leaf_call" where
  \<comment> \<open>lines 93-98\<close>
  "version_leaf fh fph =
     \<lparr>nodes = items_root fph, leaf = Some (filename fh),
      label = filename fh @ LINK_SEPARATOR @ version_src fh fph,
      src = SrcStr (version_src fh fph), mode = ''symlink'',
      origin = Some (ffp fh), force = None\<rparr>"

definition latest_leaf :: "DRSPath \<Rightarrow> leaf_call" where
  \<comment> \<open>lines 100-104\<close>
  "latest_leaf fph =
     \<lparr>nodes = items_dataset_root fph, leaf = Some ''latest'',
      label = ''latest'' @ LINK_SEPARATOR @ v_upgrade fph,
      src = SrcStr (v_upgrade fph), mode = ''symlink'', origin = None, force = None\<rparr>"

definition files_leaf :: "ProcessContext \<Rightarrow> File \<Rightarrow> DRSPath \<Rightarrow> leaf_call" where
  \<comment> \<open>lines 106-110\<close>
  "files_leaf cctx fh fph =
     \<lparr>nodes = items_files_root fph, leaf = Some (filename fh), label = filename fh,
      src = SrcStr (ffp fh), mode = mode_ctx cctx, origin = None, force = None\<rparr>"

definition upgrade_leaf :: "os_world \<Rightarrow> DRSPath \<Rightarrow> string \<Rightarrow> string \<Rightarrow> string \<Rightarrow> leaf_call" where
  \<comment> \<open>lines 120-126, \<open>target\<close> being \<^verbatim>\<open>os.readlink(src)\<close>\<close>
  "upgrade_leaf w fph root fname target =
     \<lparr>nodes = items_root fph, leaf = Some fname,
      label = fname @ LINK_SEPARATOR @ target,
      src = SrcStr target, mode = ''symlink'',
      origin = Some (realpath w (os_path_join [root, fname])), force = None\<rparr>"

fun upgrade_files ::
  "os_world \<Rightarrow> ProcessContext \<Rightarrow> File \<Rightarrow> DRSPath \<Rightarrow> string \<Rightarrow> string list \<Rightarrow> tree_main \<Rightarrow> exn option \<times> tree_main" where
  \<comment> \<open>lines 115-126, the inner loop\<close>
  "upgrade_files w cctx fh fph root [] tree = (None, tree)"
| "upgrade_files w cctx fh fph root (fname # filenames) tree =
     (if fname \<noteq> filename fh \<and> fname \<notin> set (ignore_from_latest cctx)
      then (case readlink w (os_path_join [root, fname]) of
              Inl e \<Rightarrow> (Some e, tree)
            | Inr target \<Rightarrow>
                upgrade_files w cctx fh fph root filenames
                  (create_leaf (upgrade_leaf w fph root fname target) tree))
      else upgrade_files w cctx fh fph root filenames tree)"

fun upgrade_walk ::
  "os_world \<Rightarrow> ProcessContext \<Rightarrow> File \<Rightarrow> DRSPath \<Rightarrow> (string \<times> string list) list \<Rightarrow> tree_main \<Rightarrow> exn option \<times> tree_main" where
  \<comment> \<open>line 114, the outer loop\<close>
  "upgrade_walk w cctx fh fph [] tree = (None, tree)"
| "upgrade_walk w cctx fh fph ((root, filenames) # rest) tree =
     (case upgrade_files w cctx fh fph root filenames tree of
        (Some e, tree1) \<Rightarrow> (Some e, tree1)
      | (None, tree1) \<Rightarrow> upgrade_walk w cctx fh fph rest tree1)"

definition duplicate_leaf :: "File \<Rightarrow> DRSPath \<Rightarrow> string \<Rightarrow> leaf_call" where
  \<comment> \<open>lines 141-146, \<open>target\<close> being \<^verbatim>\<open>os.readlink(latest_file)\<close>\<close>
  "duplicate_leaf fh fph target =
     \<lparr>nodes = items_root fph, leaf = Some (filename fh),
      label = filename fh @ LINK_SEPARATOR @ target,
      src = SrcStr target, mode = ''symlink'', origin = Some (ffp fh), force = None\<rparr>"

definition generate ::
  "os_world \<Rightarrow> ProcessContext \<Rightarrow> File \<Rightarrow> DRSPath \<Rightarrow> bool \<Rightarrow> tree_main \<Rightarrow> exn option \<times> tree_main" where
  \<comment> \<open>lines 88-148; \<open>dup\<close> is \<^verbatim>\<open>fh.is_duplicate\<close>\<close>
  "generate w cctx fh fph dup tree =
     (if \<not> dup then
        (let tree3 = create_leaf (files_leaf cctx fh fph)
                       (create_leaf (latest_leaf fph)
                          (create_leaf (version_leaf fh fph) tree))
         in if upgrade_from_latest cctx
            then upgrade_walk w cctx fh fph (walk w (path_dataset_latest_root fph)) tree3
            else (None, tree3))
      else
        (let latest_file = os_path_join [path_latest_root fph, filename fh]
         in if upgrade_from_latest cctx
            then (Some (DuplicatedFile latest_file (ffp fh)), tree)
            else (case readlink w latest_file of
                    Inl e \<Rightarrow> (Some e, tree)
                  | Inr target \<Rightarrow>
                      (let tree1 = create_leaf (duplicate_leaf fh fph target) tree
                       in if mode_ctx cctx = ''move''
                          then (None, tree1\<lparr>duplicates := duplicates tree1 @ [ffp fh]\<rparr>)
                          else (None, tree1)))))"

definition record_incoming :: "File \<Rightarrow> DRSPath \<Rightarrow> tree_main \<Rightarrow> tree_main" where
  \<comment> \<open>lines 150-158\<close>
  "record_incoming fh fph tree =
     (let entry = \<lparr>i_src = ffp fh, i_dst = path_root fph, i_filename = filename fh,
                   i_latest = (case v_latest fph of
                                 None \<Rightarrow> ''Initial''
                               | Some l \<Rightarrow> if l = [] then ''Initial'' else l),
                   i_size = size_f fh\<rparr>
      in case paths tree (path_dataset fph) of
           Some entries \<Rightarrow> tree\<lparr>paths := (paths tree)(path_dataset fph \<mapsto> entries @ [entry])\<rparr>
         | None \<Rightarrow> tree\<lparr>paths := (paths tree)(path_dataset fph \<mapsto> [entry])\<rparr>)"

definition process_body ::
  "handlers \<Rightarrow> os_world \<Rightarrow> ProcessContext \<Rightarrow> string \<Rightarrow> tree_main \<Rightarrow> (exn + bool) \<times> tree_main" where
  \<comment> \<open>lines 42-160, the body of the \<^verbatim>\<open>try\<close>: \<open>Inl\<close> is the exception it raises\<close>
  "process_body h w cctx ffp0 tree =
     (case File_new h ffp0 of
        Inl e \<Rightarrow> (Inl e, tree)
      | Inr fh \<Rightarrow>
          if filename fh \<in> set (ignore_from_incoming cctx) then (Inr False, tree)
          else
            (case load_attributes h fh of
               Some e \<Rightarrow> (Inl e, tree)
             | None \<Rightarrow>
                 (case check_facets h fh of
                    Some e \<Rightarrow> (Inl e, tree)
                  | None \<Rightarrow>
                      (case DRSPath_new h fh of
                         Inl e \<Rightarrow> (Inl e, tree)
                       | Inr fph \<Rightarrow>
                           if \<not> startswith (lower (path_default fph)) (lower (project cctx))
                           then (Inl AssertionError, tree)
                           else
                             (case check_latest h w cctx fh fph tree of
                                (Inl e, tree1) \<Rightarrow> (Inl e, tree1)
                              | (Inr dup, tree1) \<Rightarrow>
                                  (case generate w cctx fh fph dup tree1 of
                                     (Some e, tree2) \<Rightarrow> (Inl e, tree2)
                                   | (None, tree2) \<Rightarrow>
                                       (Inr True, record_incoming fh fph tree2)))))))"

definition process ::
  "handlers \<Rightarrow> os_world \<Rightarrow> ProcessContext \<Rightarrow> string \<Rightarrow> tree_main \<Rightarrow> (exn + bool option) \<times> tree_main" where
  \<comment> \<open>lines 41-165: \<open>Inl\<close> is an exception that leaves the function, \<open>Inr None\<close> is
      \<^verbatim>\<open>return None\<close>\<close>
  "process h w cctx ffp0 tree =
     (case process_body h w cctx ffp0 tree of
        (Inl KeyboardInterrupt, tree1) \<Rightarrow> (Inl KeyboardInterrupt, tree1)
      | (Inl e, tree1) \<Rightarrow> (Inr None, tree1)
      | (Inr b, tree1) \<Rightarrow> (Inr (Some b), tree1))"

section \<open>\<^verbatim>\<open>main.py\<close>: the driver \<^verbatim>\<open>run\<close>\<close>

datatype pickled =
    PArgs "(string \<times> string) list"
  | PTree tree_main
  | PLog string
  | PResults "bool option list"

type_synonym filesystem = "string \<rightharpoonup> pickled list"

text \<open>
  Modelled from the spec: \<^verbatim>\<open>store\<close> and \<^verbatim>\<open>load\<close> of \<^verbatim>\<open>esgprep.utils.misc\<close>, which
  are not among the sources. \<open>store\<close> replaces the content of the file by the sequence
  it is given; \<open>load\<close> gives a reader over the stored sequence, and \<open>reader_next\<close>
  takes its next element, in the order written.
\<close>

definition store :: "string \<Rightarrow> pickled list \<Rightarrow> filesystem \<Rightarrow> filesystem" where
  "store f data fs = fs(f \<mapsto> data)"

definition load :: "string \<Rightarrow> filesystem \<Rightarrow> exn + pickled list" where
  "load f fs = (case fs f of None \<Rightarrow> Inl IOError | Some data \<Rightarrow> Inr data)"

definition reader_next :: "pickled list \<Rightarrow> exn + pickled \<times> pickled list" where
  "reader_next reader = (case reader of [] \<Rightarrow> Inl StopIteration | x # rest \<Rightarrow> Inr (x, rest))"

record ProcessingContext = ProcessContext +
  scan :: bool
  use_pool :: bool
  sources :: "string list"
  commands_file_ctx :: "string option"
  action :: string
  checksum_type :: string
  getattribute :: "string \<Rightarrow> string"
  scan_err_log :: string
  scan_files :: int
  scan_errors :: int

text \<open>
  \<open>getattribute ctx key\<close> is \<^verbatim>\<open>ctx.__getattribute__(key)\<close>, printed. The methods of the
  tree that \<open>run\<close> calls at its end are not among the sources; the calls are recorded.
\<close>

datatype tree_call = check_uniqueness string | get_display_lengths | tree_action string

record run_state =
  ctx_out :: ProcessingContext
  tree_out :: tree_main
  results_out :: "bool option list"
  files_out :: filesystem
  calls :: "tree_call list"

fun scan_sources ::
  "handlers \<Rightarrow> os_world \<Rightarrow> ProcessContext \<Rightarrow> string list \<Rightarrow> tree_main \<Rightarrow> exn + bool option list \<times> tree_main" where
  \<comment> \<open>lines 223-231: \<^verbatim>\<open>[x for x in imap(process, ctx.sources)]\<close>, in the order of the sources\<close>
  "scan_sources h w cctx [] tree = Inr ([], tree)"
| "scan_sources h w cctx (x # xs) tree =
     (case process h w cctx x tree of
        (Inl e, tree1) \<Rightarrow> Inl e
      | (Inr r, tree1) \<Rightarrow>
          (case scan_sources h w cctx xs tree1 of
             Inl e \<Rightarrow> Inl e
           | Inr (rs, tree2) \<Rightarrow> Inr (r # rs, tree2)))"

definition restore ::
  "string \<Rightarrow> ProcessingContext \<Rightarrow> filesystem \<Rightarrow> exn + tree_main \<times> ProcessingContext \<times> bool option list" where
  \<comment> \<open>lines 211-217; elements of another kind than \<open>run\<close> stores are a \<^verbatim>\<open>TypeError\<close> here\<close>
  "restore user ctx fs =
     (case load (TREE_FILE user) fs of
        Inl e \<Rightarrow> Inl e
      | Inr reader \<Rightarrow>
          (case reader_next reader of
             Inl e \<Rightarrow> Inl e
           | Inr (x1, reader1) \<Rightarrow>
               (case reader_next reader1 of
                  Inl e \<Rightarrow> Inl e
                | Inr (x2, reader2) \<Rightarrow>
                    (case reader_next reader2 of
                       Inl e \<Rightarrow> Inl e
                     | Inr (x3, reader3) \<Rightarrow>
                         (case reader_next reader3 of
                            Inl e \<Rightarrow> Inl e
                          | Inr (x4, reader4) \<Rightarrow>
                              (case (x2, x3, x4) of
                                 (PTree tree, PLog log, PResults results) \<Rightarrow>
                                   Inr (tree\<lparr>commands_file := commands_file_ctx ctx\<rparr>,
                                        ctx\<lparr>scan_err_log := log\<rparr>, results)
                               | _ \<Rightarrow> Inl TypeError))))))"

definition controlled_args :: "ProcessingContext \<Rightarrow> (string \<times> string) list" where
  \<comment> \<open>line 240: \<^verbatim>\<open>{key: ctx.__getattribute__(key) for key in CONTROLLED_ARGS}\<close>\<close>
  "controlled_args ctx = map (\<lambda>key. (key, getattribute ctx key)) CONTROLLED_ARGS"

definition run ::
  "handlers \<Rightarrow> os_world \<Rightarrow> (bool option list \<Rightarrow> bool) \<Rightarrow> string \<Rightarrow> ProcessingContext \<Rightarrow> tree_main \<Rightarrow> filesystem
     \<Rightarrow> exn + run_state" where
  \<comment> \<open>lines 198-252; \<open>evaluate\<close> is the function of that name, \<open>tree0\<close> is
      \<^verbatim>\<open>manager.tree()\<close>, \<open>Inl\<close> is an exception that leaves \<open>run\<close>\<close>
  "run h w evaluate user ctx tree0 fs =
     (case (if \<not> scan ctx then restore user ctx fs
            else (case scan_sources h w (ProcessContext.truncate ctx) (sources ctx) tree0 of
                    Inl e \<Rightarrow> Inl e
                  | Inr (results, tree) \<Rightarrow> Inr (tree, ctx, results))) of
        Inl e \<Rightarrow> Inl e
      | Inr (tree, ctx1, results) \<Rightarrow>
          (let ctx2 = ctx1\<lparr>scan_files := int (length results),
                          scan_errors := int (count_list results None)\<rparr>;
               fs1 = store (TREE_FILE user)
                       [PArgs (controlled_args ctx2), PTree tree, PLog (scan_err_log ctx2),
                        PResults results] fs
           in Inr \<lparr>ctx_out = ctx2, tree_out = tree, results_out = results, files_out = fs1,
                   calls = (if evaluate results
                            then (if \<not> no_checksum ctx2
                                  then [check_uniqueness (checksum_type ctx2)] else [])
                                 @ [get_display_lengths, tree_action (action ctx2)]
                            else [])\<rparr>))"

section \<open>\<^verbatim>\<open>make.py\<close>: the worker \<^verbatim>\<open>Process.__call__\<close>\<close>

text \<open>
  A path object is the list of its \<^verbatim>\<open>parts\<close>; \<open>path_name\<close>, \<open>path_parent\<close> and
  \<open>path_str\<close> are \<^verbatim>\<open>name\<close>, \<^verbatim>\<open>parent\<close> and \<^verbatim>\<open>str()\<close> of \<^verbatim>\<open>pathlib\<close>.
\<close>

type_synonym path = "string list"

definition path_name :: "path \<Rightarrow> string" where
  "path_name p = (if p = [] \<or> p = [''/''] then [] else last p)"

definition path_parent :: "path \<Rightarrow> path" where
  "path_parent p = (if p = [''/''] then p else butlast p)"

fun join_sep :: "string list \<Rightarrow> string" where
  "join_sep [] = []"
| "join_sep [x] = x"
| "join_sep (x # y # ys) = x @ ''/'' @ join_sep (y # ys)"

fun path_str :: "path \<Rightarrow> string" where
  "path_str [] = ''.''"
| "path_str (p # ps) = (if p = ''/'' then ''/'' @ join_sep ps else join_sep (p # ps))"

definition truthy :: "string option \<Rightarrow> bool" where
  \<comment> \<open>the truth value of a string or \<^verbatim>\<open>None\<close>\<close>
  "truthy v = (case v of None \<Rightarrow> False | Some s \<Rightarrow> s \<noteq> [])"

record file_record =
  r_src :: path
  r_dst :: path
  r_is_duplicate :: bool

record paths_entry =
  files :: "file_record list"
  latest :: string

type_synonym tree_make = "(path, paths_entry) DRSTree"

type_synonym ncattrs = "string \<rightharpoonup> string"

record utils =
  get_ncattrs :: "path \<Rightarrow> exn + ncattrs"
  drs_path :: "ncattrs \<Rightarrow> exn + path option"
  with_latest_version :: "path \<Rightarrow> path option"
  get_version :: "path \<Rightarrow> string"
  get_tracking_id :: "ncattrs \<Rightarrow> string option"
  st_size :: "path \<Rightarrow> exn + int"
  get_checksum :: "path \<Rightarrow> exn + string"
  get_drs_down :: "path \<Rightarrow> path"
  get_drs_up :: "path \<Rightarrow> path"
  with_file_folder :: "path \<Rightarrow> path"
  dataset_path :: "path \<Rightarrow> path"

text \<open>
  The functions of \<^verbatim>\<open>esgprep._utils\<close> as \<^verbatim>\<open>__call__\<close> uses them: \<open>drs_path\<close> is
  \<^verbatim>\<open>drs_path(current_attrs, self.set_values, self.set_keys)\<close> and gives the parts of the
  directory, or \<open>None\<close>; \<open>st_size p\<close> is \<^verbatim>\<open>p.stat().st_size\<close>; \<open>get_checksum p\<close> is
  \<^verbatim>\<open>get_checksum(p, self.checksum_type, self.checksums_from)\<close>. Versions are strings,
  compared as Python compares strings.
\<close>

definition detect ::
  "utils \<Rightarrow> os_world \<Rightarrow> ProcessContext \<Rightarrow> ncattrs \<Rightarrow> path \<Rightarrow> path option \<Rightarrow> exn + bool \<times> string" where
  \<comment> \<open>lines 129-181: the result is (\<^verbatim>\<open>is_duplicate\<close>, \<^verbatim>\<open>latest_version\<close>)\<close>
  "detect u w ctx current_attrs current_path latest_path =
     (case latest_path of
        None \<Rightarrow> Inr (False, ''Initial'')
      | Some lp \<Rightarrow>
          if \<not> path_exists w (path_str lp) then Inr (False, ''Initial'')
          else
            (let current_version = get_version u current_path;
                 latest_version = get_version u lp
             in if latest_version < current_version
                then Inl (OlderUpgrade current_version latest_version)
                else
                  (case get_ncattrs u lp of
                     Inl e \<Rightarrow> Inl e
                   | Inr latest_attrs \<Rightarrow>
                       (let current_tracking_id = get_tracking_id u current_attrs;
                            latest_tracking_id = get_tracking_id u latest_attrs
                        in if current_tracking_id = latest_tracking_id
                           then
                             (case st_size u current_path of
                                Inl e \<Rightarrow> Inl e
                              | Inr current_size \<Rightarrow>
                                  (case st_size u lp of
                                     Inl e \<Rightarrow> Inl e
                                   | Inr latest_size \<Rightarrow>
                                       if current_size = latest_size \<and> \<not> no_checksum ctx
                                       then
                                         (case get_checksum u current_path of
                                            Inl e \<Rightarrow> Inl e
                                          | Inr current_checksum \<Rightarrow>
                                              (case get_checksum u lp of
                                                 Inl e \<Rightarrow> Inl e
                                               | Inr latest_checksum \<Rightarrow>
                                                   if current_checksum = latest_checksum
                                                   then Inr (True, latest_version)
                                                   else if truthy current_tracking_id \<and> truthy latest_tracking_id
                                                   then Inl (UnchangedTrackingID (path_str lp) latest_tracking_id
                                                               (path_str current_path) current_tracking_id)
                                                   else Inr (False, latest_version)))
                                       else if truthy current_tracking_id \<and> truthy latest_tracking_id
                                       then Inl (UnchangedTrackingID (path_str lp) latest_tracking_id
                                                   (path_str current_path) current_tracking_id)
                                       else Inr (False, latest_version)))
                           else Inr (False, latest_version)))))"

definition version_src_make :: "utils \<Rightarrow> path \<Rightarrow> string" where
  \<comment> \<open>lines 190-192 and \<^verbatim>\<open>os.path.join(*src)\<close>\<close>
  "version_src_make u current_path =
     os_path_join (replicate (length (get_drs_down u current_path)) ''..'' @ [''files'']
                   @ get_drs_down u (with_file_folder u current_path))"

definition version_leaf_make :: "utils \<Rightarrow> path \<Rightarrow> leaf_call" where
  \<comment> \<open>lines 193-197\<close>
  "version_leaf_make u current_path =
     \<lparr>nodes = current_path, leaf = None,
      label = path_name current_path @ LINK_SEPARATOR @ version_src_make u current_path,
      src = SrcStr (version_src_make u current_path), mode = ''symlink'',
      origin = None, force = Some True\<rparr>"

definition latest_leaf_make :: "utils \<Rightarrow> path \<Rightarrow> tree_make \<Rightarrow> leaf_call" where
  \<comment> \<open>lines 200-205\<close>
  "latest_leaf_make u current_path tree =
     \<lparr>nodes = path_parent (dataset_path u current_path) @ [''latest''], leaf = None,
      label = ''latest'' @ LINK_SEPARATOR @ drs_version tree,
      src = SrcStr (drs_version tree), mode = ''symlink'', origin = None, force = None\<rparr>"

definition files_leaf_make :: "utils \<Rightarrow> ProcessContext \<Rightarrow> path \<Rightarrow> leaf_call" where
  \<comment> \<open>lines 208-211: the source of this leaf is \<^verbatim>\<open>current_path\<close>\<close>
  "files_leaf_make u ctx current_path =
     \<lparr>nodes = with_file_folder u current_path, leaf = None, label = path_name current_path,
      src = SrcPath current_path, mode = mode_ctx ctx, origin = None, force = None\<rparr>"

fun upgrade_files_make :: "ProcessContext \<Rightarrow> path \<Rightarrow> string list \<Rightarrow> exn option" where
  \<comment> \<open>lines 219-232, the inner loop. The first argument of the call on line 228 is
      \<^verbatim>\<open>current_path.parent.parts.append(latest_name)\<close>; \<^verbatim>\<open>parts\<close> is a tuple, which has no
      \<^verbatim>\<open>append\<close>, so evaluating it raises \<^verbatim>\<open>AttributeError\<close> before \<^verbatim>\<open>create_leaf\<close>
      is entered\<close>
  "upgrade_files_make ctx current_path [] = None"
| "upgrade_files_make ctx current_path (latest_name # filenames) =
     (if latest_name \<noteq> path_name current_path \<and> latest_name \<notin> set (ignore_from_latest ctx)
      then Some AttributeError
      else upgrade_files_make ctx current_path filenames)"

fun upgrade_walk_make :: "ProcessContext \<Rightarrow> path \<Rightarrow> (string \<times> string list) list \<Rightarrow> exn option" where
  \<comment> \<open>line 218, the outer loop\<close>
  "upgrade_walk_make ctx current_path [] = None"
| "upgrade_walk_make ctx current_path ((root, filenames) # rest) =
     (case upgrade_files_make ctx current_path filenames of
        Some e \<Rightarrow> Some e
      | None \<Rightarrow> upgrade_walk_make ctx current_path rest)"

definition duplicate_leaf_make :: "path \<Rightarrow> string \<Rightarrow> leaf_call" where
  \<comment> \<open>lines 250-253, \<open>target\<close> being \<^verbatim>\<open>os.readlink(latest_path)\<close>\<close>
  "duplicate_leaf_make current_path target =
     \<lparr>nodes = current_path, leaf = None,
      label = path_name current_path @ LINK_SEPARATOR @ target,
      src = SrcStr target, mode = ''symlink'', origin = None, force = None\<rparr>"

definition generate_make ::
  "utils \<Rightarrow> os_world \<Rightarrow> ProcessContext \<Rightarrow> path \<Rightarrow> path \<Rightarrow> path option \<Rightarrow> bool \<Rightarrow> tree_make
     \<Rightarrow> exn option \<times> tree_make" where
  \<comment> \<open>lines 187-255\<close>
  "generate_make u w ctx source current_path latest_path is_dup tree =
     (if \<not> is_dup then
        (let tree3 = create_leaf (files_leaf_make u ctx current_path)
                       (create_leaf (latest_leaf_make u current_path tree)
                          (create_leaf (version_leaf_make u current_path) tree))
         in case latest_path of
              None \<Rightarrow> (None, tree3)
            | Some lp \<Rightarrow>
                if path_exists w (path_str lp) \<and> upgrade_from_latest ctx
                then (upgrade_walk_make ctx current_path (walk w (path_str lp)), tree3)
                else (None, tree3))
      else if upgrade_from_latest ctx
      then (Some (DuplicatedFile (case latest_path of None \<Rightarrow> ''None'' | Some lp \<Rightarrow> path_str lp)
                    (path_str source)), tree)
      else
        (case latest_path of
           None \<Rightarrow> (Some TypeError, tree)
         | Some lp \<Rightarrow>
             (case readlink w (path_str lp) of
                Inl e \<Rightarrow> (Some e, tree)
              | Inr target \<Rightarrow>
                  (let tree1 = create_leaf (duplicate_leaf_make current_path target) tree
                   in if mode_ctx ctx = ''move''
                      then (None, tree1\<lparr>duplicates := duplicates tree1 @ [source]\<rparr>)
                      else (None, tree1)))))"

definition record_make ::
  "utils \<Rightarrow> path \<Rightarrow> path \<Rightarrow> bool \<Rightarrow> string \<Rightarrow> tree_make \<Rightarrow> exn option \<times> tree_make" where
  \<comment> \<open>lines 258-268: the record is appended on line 263, the assertion follows on line 264\<close>
  "record_make u source current_path is_dup latest_version tree =
     (let record = \<lparr>r_src = source, r_dst = current_path, r_is_duplicate = is_dup\<rparr>;
          key = path_str (path_parent (get_drs_up u current_path))
      in case paths tree key of
           Some entry \<Rightarrow>
             (let tree1 = tree\<lparr>paths := (paths tree)(key \<mapsto> entry\<lparr>files := files entry @ [record]\<rparr>)\<rparr>
              in if latest_version = latest entry then (None, tree1)
                 else (Some AssertionError, tree1))
         | None \<Rightarrow>
             (None, tree\<lparr>paths := (paths tree)(key \<mapsto> \<lparr>files = [record], latest = latest_version\<rparr>)\<rparr>))"

definition Process_body ::
  "utils \<Rightarrow> os_world \<Rightarrow> ProcessContext \<Rightarrow> path \<Rightarrow> tree_make \<Rightarrow> (exn + bool option) \<times> tree_make" where
  \<comment> \<open>lines 111-276, the body of the outer \<^verbatim>\<open>try\<close>: \<open>Inl\<close> is the exception it
      raises, \<open>Inr\<close> the value it returns\<close>
  "Process_body u w ctx source tree =
     (if path_name source \<in> set (ignore_from_incoming ctx) then (Inr None, tree)
      else
        (case get_ncattrs u source of
           Inl e \<Rightarrow> (Inl e, tree)
         | Inr attrs \<Rightarrow>
             (let current_attrs = attrs(''filename'' \<mapsto> path_name source,
                                        ''dataset-version'' \<mapsto> drs_version tree)
              in case drs_path u current_attrs of
                   Inl e \<Rightarrow> if e = TypeError then (Inr (Some False), tree) else (Inl e, tree)
                 | Inr None \<Rightarrow> (Inr (Some False), tree)
                 | Inr (Some directory) \<Rightarrow>
                     (let current_path = root_ctx ctx @ directory @ [path_name source];
                          latest_path = with_latest_version u current_path
                      in case detect u w ctx current_attrs current_path latest_path of
                           Inl e \<Rightarrow> (Inl e, tree)
                         | Inr (is_dup, latest_version) \<Rightarrow>
                             (case generate_make u w ctx source current_path latest_path is_dup tree of
                                (Some e, tree1) \<Rightarrow> (Inl e, tree1)
                              | (None, tree1) \<Rightarrow>
                                  (case record_make u source current_path is_dup latest_version tree1 of
                                     (Some e, tree2) \<Rightarrow> (Inl e, tree2)
                                   | (None, tree2) \<Rightarrow> (Inr (Some True), tree2)))))))"

record shared =
  tree_sh :: tree_make
  errors :: int
  progress :: int

definition Process_call ::
  "utils \<Rightarrow> os_world \<Rightarrow> ProcessContext \<Rightarrow> path \<Rightarrow> shared \<Rightarrow> (exn + bool option) \<times> shared" where
  \<comment> \<open>lines 53-311 without the printing: \<open>Inl\<close> is an exception that leaves the method,
      \<open>Inr None\<close> is \<^verbatim>\<open>return None\<close>\<close>
  "Process_call u w ctx source sh =
     (case Process_body u w ctx source (tree_sh sh) of
        (Inl KeyboardInterrupt, tree1) \<Rightarrow>
          (Inl KeyboardInterrupt,
           sh\<lparr>tree_sh := tree1, errors := errors sh + 1, progress := progress sh + 1\<rparr>)
      | (Inl e, tree1) \<Rightarrow>
          (Inr None, sh\<lparr>tree_sh := tree1, errors := errors sh + 1, progress := progress sh + 1\<rparr>)
      | (Inr r, tree1) \<Rightarrow>
          (Inr r, sh\<lparr>tree_sh := tree1, progress := progress sh + 1\<rparr>))"

section \<open>Concrete runs\<close>

text \<open>
  One dataset \<^verbatim>\<open>CMIP6/tas\<close> under the root \<^verbatim>\<open>/drs\<close>, upgraded to
  \<^verbatim>\<open>v20200102\<close>; the incoming file is \<^verbatim>\<open>/in/a.nc\<close>. The examples are parameters of the
  theorems' instances further down.
\<close>

definition ex_file :: File where
  "ex_file = \<lparr>filename = ''a.nc'', ffp = ''/in/a.nc'', size_f = 10, is_duplicate = False\<rparr>"

definition ex_fph :: "string option \<Rightarrow> DRSPath" where
  \<comment> \<open>the argument is the latest version on disk, if any\<close>
  "ex_fph latest_v =
     \<lparr>TREE_VERSION = ''v20200102'', v_latest = latest_v, v_upgrade = ''v20200102'',
      path_default = ''CMIP6/tas/v20200102/a.nc'',
      path_root = ''/drs/CMIP6/tas/v20200102/a.nc'',
      path_dataset = ''CMIP6/tas/v20200102'',
      path_latest_root = ''/drs/CMIP6/tas/latest'',
      path_dataset_latest_root = ''/drs/CMIP6/tas/latest'',
      items_root = [''/drs'', ''CMIP6'', ''tas'', ''v20200102''],
      items_down = [''v20200102''],
      items_down_files = [''files'', ''d20200102''],
      items_dataset_root = [''/drs'', ''CMIP6'', ''tas''],
      items_files_root = [''/drs'', ''CMIP6'', ''tas'', ''files'', ''d20200102'']\<rparr>"

definition ex_handlers :: "string option \<Rightarrow> string \<Rightarrow> handlers" where
  \<comment> \<open>the arguments are the latest version and the checksum of every file on disk;
      the checksum of the incoming file is \<^verbatim>\<open>aaa\<close>\<close>
  "ex_handlers latest_v disk_sum =
     \<lparr>File_new = (\<lambda>p. Inr ex_file), load_attributes = (\<lambda>fh. None),
      check_facets = (\<lambda>fh. None), DRSPath_new = (\<lambda>fh. Inr (ex_fph latest_v)),
      checksum = (\<lambda>p. if p = ''/in/a.nc'' then ''aaa'' else disk_sum)\<rparr>"

definition ex_os :: os_world where
  \<comment> \<open>every version on disk holds the links \<^verbatim>\<open>a.nc\<close> and \<^verbatim>\<open>b.nc\<close> into
      \<^verbatim>\<open>files/d20200101\<close>; walking a folder lists them, walking a file lists nothing\<close>
  "ex_os =
     \<lparr>path_exists = (\<lambda>p. startswith p ''/drs/CMIP6/tas/''),
      walk = (\<lambda>p. if p = ''/drs/CMIP6/tas/latest'' \<or> p = ''/drs/CMIP6/tas/v20200101''
                      \<or> p = ''/drs/CMIP6/tas/v20200103''
                   then [(p, [''a.nc'', ''b.nc''])]
                   else []),
      readlink = (\<lambda>p. if startswith p ''/drs/CMIP6/tas/''
                       then Inr (''../files/d20200101/'' @ drop (length p - 4) p)
                       else Inl OSError),
      realpath = (\<lambda>p. if p = ''/drs/CMIP6/tas/latest/b.nc''
                       then ''/drs/CMIP6/tas/files/d20200101/b.nc'' else p)\<rparr>"

definition ex_ctx :: ProcessContext where
  "ex_ctx = \<lparr>project = ''cmip6'', root_ctx = [''/'', ''drs''], mode_ctx = ''move'',
             no_checksum = False, upgrade_from_latest = False,
             ignore_from_latest = [], ignore_from_incoming = []\<rparr>"

definition ex_tree :: "('d, 'p) DRSTree" where
  "ex_tree = \<lparr>leaves = [], duplicates = [], paths = Map.empty, hash = Map.empty,
              commands_file = None, drs_version = ''v20200102''\<rparr>"

definition ex_source :: path where
  "ex_source = [''/'', ''in'', ''a.nc'']"

definition ex_current :: path where
  "ex_current = [''/'', ''drs'', ''CMIP6'', ''tas'', ''v20200102'', ''a.nc'']"

definition ex_latest :: "string \<Rightarrow> path" where
  "ex_latest latest_v = [''/'', ''drs'', ''CMIP6'', ''tas'', latest_v, ''a.nc'']"

definition ex_utils :: "string \<Rightarrow> string option \<Rightarrow> string option \<Rightarrow> int \<Rightarrow> string \<Rightarrow> utils" where
  \<comment> \<open>the arguments: the version that holds the latest \<^verbatim>\<open>a.nc\<close>, the tracking
      identifiers of the incoming and of the latest file, the size and the checksum of the
      latest file; the file at the destination \<^verbatim>\<open>current_path\<close> has size 10 and checksum
      \<^verbatim>\<open>aaa\<close>\<close>
  "ex_utils latest_v tid tid_latest size_latest sum_latest =
     \<lparr>get_ncattrs = (\<lambda>p. if p = ex_source then Inr (\<lambda>k. if k = ''tracking_id'' then tid else None)
                          else Inr (\<lambda>k. if k = ''tracking_id'' then tid_latest else None)),
      drs_path = (\<lambda>attrs. Inr (Some [''CMIP6'', ''tas'', ''v20200102''])),
      with_latest_version = (\<lambda>p. Some (take 4 p @ [latest_v, last p])),
      get_version = (\<lambda>p. p ! 4),
      get_tracking_id = (\<lambda>attrs. attrs ''tracking_id''),
      st_size = (\<lambda>p. if p = ex_current then Inr 10 else Inr size_latest),
      get_checksum = (\<lambda>p. if p = ex_current then Inr ''aaa'' else Inr sum_latest),
      get_drs_down = (\<lambda>p. drop 5 p),
      get_drs_up = (\<lambda>p. take 5 p),
      with_file_folder = (\<lambda>p. take 4 p @ [''files'', ''d20200102'', last p]),
      dataset_path = (\<lambda>p. take 5 p)\<rparr>"

definition ex_source_b :: path where
  "ex_source_b = [''/'', ''in'', ''b.nc'']"

definition ex_shared :: shared where
  "ex_shared = \<lparr>tree_sh = ex_tree, errors = 0, progress = 0\<rparr>"

definition ex_pctx :: "bool \<Rightarrow> string option \<Rightarrow> ProcessingContext" where
  \<comment> \<open>the arguments of one invocation: whether it scans, and its commands file\<close>
  "ex_pctx sc cf =
     \<lparr>project = ''cmip6'', root_ctx = [''/'', ''drs''], mode_ctx = ''move'',
      no_checksum = False, upgrade_from_latest = False,
      ignore_from_latest = [], ignore_from_incoming = [],
      scan = sc, use_pool = False, sources = [''/in/a.nc''], commands_file_ctx = cf,
      action = ''upgrade'', checksum_type = ''sha256'',
      getattribute = (\<lambda>key. if key = ''mode'' then ''move'' else []),
      scan_err_log = ''/tmp/scan.err'', scan_files = 0, scan_errors = 0\<rparr>"

definition ex_evaluate :: "bool option list \<Rightarrow> bool" where
  \<comment> \<open>an evaluation that accepts a scan without errors\<close>
  "ex_evaluate results = (None \<notin> set results)"

section \<open>Properties\<close>

subsection \<open>What the phases of \<^verbatim>\<open>process\<close> leave unchanged\<close>

lemma create_leaf_fields:
  "leaves (create_leaf l t) = leaves t @ [l]"
  "duplicates (create_leaf l t) = duplicates t"
  "paths (create_leaf l t) = paths t"
  by (simp_all add: create_leaf_def)

lemma fill_hash_fields:
  "leaves (fill_hash h w fph t) = leaves t"
  "duplicates (fill_hash h w fph t) = duplicates t"
  "paths (fill_hash h w fph t) = paths t"
  by (simp_all add: fill_hash_def Let_def)

lemma check_latest_fields:
  assumes "check_latest h w cctx fh fph tree = (r, tree1)"
  shows "leaves tree1 = leaves tree \<and> duplicates tree1 = duplicates tree \<and> paths tree1 = paths tree"
  using assms
  by (auto simp: check_latest_def Let_def fill_hash_fields split: option.splits sum.splits if_splits)

lemma record_incoming_fields:
  "leaves (record_incoming fh fph t) = leaves t"
  "duplicates (record_incoming fh fph t) = duplicates t"
  by (simp_all add: record_incoming_def Let_def split: option.splits)

lemma upgrade_files_leaves:
  "upgrade_files w cctx fh fph root names tree = (r, tree1) \<Longrightarrow>
   \<exists>extra. leaves tree1 = leaves tree @ extra \<and> duplicates tree1 = duplicates tree \<and> paths tree1 = paths tree \<and>
     (\<forall>l \<in> set extra. nodes l = items_root fph \<and> mode l = ''symlink'' \<and> leaf l \<noteq> Some (filename fh))"
proof (induction names arbitrary: tree)
  case Nil
  then show ?case by simp
next
  case (Cons n names)
  show ?case
  proof (cases "n \<noteq> filename fh \<and> n \<notin> set (ignore_from_latest cctx)")
    case False
    with Cons.prems have "upgrade_files w cctx fh fph root names tree = (r, tree1)" by auto
    from Cons.IH[OF this] show ?thesis .
  next
    case q: True
    show ?thesis
    proof (cases "readlink w (os_path_join [root, n])")
      case (Inl e)
      with q Cons.prems show ?thesis by auto
    next
      case (Inr target)
      let ?t = "create_leaf (upgrade_leaf w fph root n target) tree"
      from q Inr Cons.prems have "upgrade_files w cctx fh fph root names ?t = (r, tree1)" by simp
      from Cons.IH[OF this] obtain extra where
        e: "leaves tree1 = leaves ?t @ extra" "duplicates tree1 = duplicates ?t" "paths tree1 = paths ?t"
           "\<forall>l \<in> set extra. nodes l = items_root fph \<and> mode l = ''symlink'' \<and> leaf l \<noteq> Some (filename fh)"
        by blast
      have "leaves tree1 = leaves tree @ (upgrade_leaf w fph root n target # extra)"
        using e(1) by (simp add: create_leaf_fields)
      moreover have "\<forall>l \<in> set (upgrade_leaf w fph root n target # extra).
          nodes l = items_root fph \<and> mode l = ''symlink'' \<and> leaf l \<noteq> Some (filename fh)"
        using e(4) q by (simp add: upgrade_leaf_def)
      ultimately show ?thesis using e(2,3) by (metis create_leaf_fields(2,3))
    qed
  qed
qed

lemma upgrade_walk_leaves:
  "upgrade_walk w cctx fh fph ws tree = (r, tree1) \<Longrightarrow>
   \<exists>extra. leaves tree1 = leaves tree @ extra \<and> duplicates tree1 = duplicates tree \<and> paths tree1 = paths tree \<and>
     (\<forall>l \<in> set extra. nodes l = items_root fph \<and> mode l = ''symlink'' \<and> leaf l \<noteq> Some (filename fh))"
proof (induction ws arbitrary: tree)
  case Nil
  then show ?case by simp
next
  case (Cons a ws)
  obtain root names where a: "a = (root, names)" by (cases a)
  obtain r0 t0 where u: "upgrade_files w cctx fh fph root names tree = (r0, t0)" by fastforce
  from upgrade_files_leaves[OF u] obtain e0 where
    e0: "leaves t0 = leaves tree @ e0" "duplicates t0 = duplicates tree" "paths t0 = paths tree"
        "\<forall>l \<in> set e0. nodes l = items_root fph \<and> mode l = ''symlink'' \<and> leaf l \<noteq> Some (filename fh)"
    by blast
  show ?case
  proof (cases r0)
    case (Some e)
    with Cons.prems a u have "tree1 = t0" by simp
    with e0 show ?thesis by blast
  next
    case None
    with Cons.prems a u have "upgrade_walk w cctx fh fph ws t0 = (r, tree1)" by simp
    from Cons.IH[OF this] obtain e1 where
      e1: "leaves tree1 = leaves t0 @ e1" "duplicates tree1 = duplicates t0" "paths tree1 = paths t0"
          "\<forall>l \<in> set e1. nodes l = items_root fph \<and> mode l = ''symlink'' \<and> leaf l \<noteq> Some (filename fh)"
      by blast
    have "leaves tree1 = leaves tree @ (e0 @ e1)" using e0(1) e1(1) by simp
    moreover have "\<forall>l \<in> set (e0 @ e1). nodes l = items_root fph \<and> mode l = ''symlink'' \<and> leaf l \<noteq> Some (filename fh)"
      using e0(4) e1(4) by auto
    ultimately show ?thesis using e0(2,3) e1(2,3) by metis
  qed
qed


lemma check_latest_older_upgrade_iff:
  assumes "v_latest fph = Some lv" and "lv \<noteq> []"
    and "py_int (drop 1 (TREE_VERSION fph)) = Inr upgrade_n"
    and "py_int (drop 1 lv) = Inr latest_n"
  shows "(fst (check_latest h w cctx fh fph tree) = Inl (OlderUpgrade (TREE_VERSION fph) lv))
           = (upgrade_n \<le> latest_n)"
    and "latest_n < upgrade_n \<Longrightarrow> \<exists>dup. fst (check_latest h w cctx fh fph tree) = Inr dup"
  using assms by (auto simp: check_latest_def Let_def)

lemma detect_raises_when_newer:
  assumes "path_exists w (path_str lp)" and "get_version u lp < get_version u cp"
  shows "detect u w ctx attrs cp (Some lp) = Inl (OlderUpgrade (get_version u cp) (get_version u lp))"
  using assms by (simp add: detect_def Let_def)

text \<open>
  Claim C1. With an existing latest version, \<^verbatim>\<open>OlderUpgrade(current, latest)\<close> is to be
  raised exactly when the new version is not greater than the latest one. \<^verbatim>\<open>process\<close> of
  \<^verbatim>\<open>main.py\<close> does so (\<open>check_latest_older_upgrade_iff\<close>). \<^verbatim>\<open>Process.__call__\<close> of
  \<^verbatim>\<open>make.py\<close> tests \<^verbatim>\<open>latest_version < current_version\<close> and so raises when the new
  version is the greater one (\<open>detect_raises_when_newer\<close>): upgrading the latest
  \<^verbatim>\<open>v20200101\<close> to \<^verbatim>\<open>v20200102\<close> raises \<^verbatim>\<open>OlderUpgrade\<close>, the file is answered by
  \<^verbatim>\<open>None\<close> and no leaf is queued, whereas a latest \<^verbatim>\<open>v20200103\<close> passes the check;
  \<^verbatim>\<open>process\<close> accepts the same upgrade.
\<close>

theorem C1_make_version_check_inverted:
  "detect (ex_utils ''v20200101'' (Some ''t1'') (Some ''t2'') 10 ''bbb'') ex_os ex_ctx Map.empty
      ex_current (Some (ex_latest ''v20200101''))
     = Inl (OlderUpgrade ''v20200102'' ''v20200101'')
   \<and> fst (Process_call (ex_utils ''v20200101'' (Some ''t1'') (Some ''t2'') 10 ''bbb'') ex_os ex_ctx
            ex_source ex_shared) = Inr None
   \<and> leaves (tree_sh (snd (Process_call (ex_utils ''v20200101'' (Some ''t1'') (Some ''t2'') 10 ''bbb'')
            ex_os ex_ctx ex_source ex_shared))) = []
   \<and> detect (ex_utils ''v20200103'' (Some ''t1'') (Some ''t2'') 10 ''bbb'') ex_os ex_ctx Map.empty
      ex_current (Some (ex_latest ''v20200103''))
     = Inr (False, ''v20200103'')
   \<and> fst (process (ex_handlers (Some ''v20200101'') ''bbb'') ex_os ex_ctx ''/in/a.nc'' ex_tree)
     = Inr (Some True)"
  by code_simp

subsection \<open>The leaves of a new file\<close>

lemma process_returns_iff:
  "(process h w cctx p tree = (Inr (Some b), tree')) = (process_body h w cctx p tree = (Inr b, tree'))"
  by (auto simp: process_def split: prod.splits sum.splits exn.splits)

lemma generate_not_duplicate:
  assumes "generate w cctx fh fph False tree1 = (r, tree2)"
  shows "\<exists>extra. leaves tree2 = leaves tree1 @ [version_leaf fh fph, latest_leaf fph, files_leaf cctx fh fph] @ extra
           \<and> (\<not> upgrade_from_latest cctx \<longrightarrow> extra = [])
           \<and> (\<forall>l \<in> set extra. nodes l = items_root fph \<and> mode l = ''symlink'' \<and> leaf l \<noteq> Some (filename fh))"
proof (cases "upgrade_from_latest cctx")
  case False
  with assms show ?thesis by (auto simp: generate_def Let_def create_leaf_fields)
next
  case True
  let ?t3 = "create_leaf (files_leaf cctx fh fph) (create_leaf (latest_leaf fph) (create_leaf (version_leaf fh fph) tree1))"
  from True assms have "upgrade_walk w cctx fh fph (walk w (path_dataset_latest_root fph)) ?t3 = (r, tree2)"
    by (simp add: generate_def Let_def)
  from upgrade_walk_leaves[OF this] obtain extra where
    "leaves tree2 = leaves ?t3 @ extra"
    "\<forall>l \<in> set extra. nodes l = items_root fph \<and> mode l = ''symlink'' \<and> leaf l \<noteq> Some (filename fh)"
    by blast
  then show ?thesis using True by (auto simp: create_leaf_fields)
qed

lemma process_body_reaches_generate:
  assumes "process_body h w cctx p tree = (Inr True, tree')"
    and "File_new h p = Inr fh" and "DRSPath_new h fh = Inr fph"
    and "check_latest h w cctx fh fph tree = (Inr dup, tree1)"
  shows "\<exists>tree2. generate w cctx fh fph dup tree1 = (None, tree2) \<and> tree' = record_incoming fh fph tree2"
  using assms
  by (auto simp: process_body_def split: if_splits option.splits sum.splits prod.splits)

lemma process_three_leaves_first:
  assumes "process h w cctx p tree = (Inr (Some True), tree')"
    and "File_new h p = Inr fh" and "DRSPath_new h fh = Inr fph"
    and "check_latest h w cctx fh fph tree = (Inr False, tchk)"
  shows "(\<exists>extra. leaves tree' = leaves tree @ [version_leaf fh fph, latest_leaf fph, files_leaf cctx fh fph] @ extra
            \<and> (\<not> upgrade_from_latest cctx \<longrightarrow> extra = [])
            \<and> (\<forall>l \<in> set extra. nodes l = items_root fph \<and> mode l = ''symlink'' \<and> leaf l \<noteq> Some (filename fh)))
         \<and> nodes (version_leaf fh fph) = items_root fph \<and> leaf (version_leaf fh fph) = Some (filename fh)
         \<and> mode (version_leaf fh fph) = ''symlink''
         \<and> src (version_leaf fh fph) =
             SrcStr (os_path_join (replicate (length (items_down fph)) ''..'' @ items_down_files fph @ [filename fh]))
         \<and> nodes (latest_leaf fph) = items_dataset_root fph \<and> leaf (latest_leaf fph) = Some ''latest''
         \<and> mode (latest_leaf fph) = ''symlink'' \<and> src (latest_leaf fph) = SrcStr (v_upgrade fph)
         \<and> nodes (files_leaf cctx fh fph) = items_files_root fph \<and> leaf (files_leaf cctx fh fph) = Some (filename fh)
         \<and> mode (files_leaf cctx fh fph) = mode_ctx cctx \<and> src (files_leaf cctx fh fph) = SrcStr (ffp fh)"
proof -
  from assms(1) have "process_body h w cctx p tree = (Inr True, tree')"
    by (simp add: process_returns_iff)
  from process_body_reaches_generate[OF this assms(2,3,4)] obtain tree2 where
    g: "generate w cctx fh fph False tchk = (None, tree2)" and t: "tree' = record_incoming fh fph tree2"
    by blast
  have l1: "leaves tchk = leaves tree" using check_latest_fields[OF assms(4)] by simp
  from generate_not_duplicate[OF g] obtain extra where
    "leaves tree2 = leaves tchk @ [version_leaf fh fph, latest_leaf fph, files_leaf cctx fh fph] @ extra"
    "\<not> upgrade_from_latest cctx \<longrightarrow> extra = []"
    "\<forall>l \<in> set extra. nodes l = items_root fph \<and> mode l = ''symlink'' \<and> leaf l \<noteq> Some (filename fh)"
    by blast
  then have "\<exists>extra. leaves tree' = leaves tree @ [version_leaf fh fph, latest_leaf fph, files_leaf cctx fh fph] @ extra
            \<and> (\<not> upgrade_from_latest cctx \<longrightarrow> extra = [])
            \<and> (\<forall>l \<in> set extra. nodes l = items_root fph \<and> mode l = ''symlink'' \<and> leaf l \<noteq> Some (filename fh))"
    using t l1 by (auto simp: record_incoming_fields)
  then show ?thesis
    by (simp add: version_leaf_def latest_leaf_def files_leaf_def version_src_def)
qed

subsection \<open>Duplicates\<close>

lemma record_make_fields:
  "leaves (snd (record_make u source cp d lv tree)) = leaves tree"
  "duplicates (snd (record_make u source cp d lv tree)) = duplicates tree"
  by (simp_all add: record_make_def Let_def split: option.splits)

lemma record_make_result:
  "fst (record_make u source cp d lv tree) = None \<or> fst (record_make u source cp d lv tree) = Some AssertionError"
  by (simp add: record_make_def Let_def split: option.splits)

lemma Process_call_fst:
  "fst (Process_call u w ctx source sh) =
     (case fst (Process_body u w ctx source (tree_sh sh)) of
        Inl KeyboardInterrupt \<Rightarrow> Inl KeyboardInterrupt
      | Inl e \<Rightarrow> Inr None
      | Inr r \<Rightarrow> Inr r)"
  by (simp add: Process_call_def split: prod.splits sum.splits exn.splits)

lemma Process_call_tree:
  "tree_sh (snd (Process_call u w ctx source sh)) = snd (Process_body u w ctx source (tree_sh sh))"
  by (simp add: Process_call_def split: prod.splits sum.splits exn.splits)

lemma process_fst:
  "fst (process h w cctx p tree) =
     (case fst (process_body h w cctx p tree) of
        Inl KeyboardInterrupt \<Rightarrow> Inl KeyboardInterrupt
      | Inl e \<Rightarrow> Inr None
      | Inr b \<Rightarrow> Inr (Some b))"
  by (simp add: process_def split: prod.splits sum.splits exn.splits)

lemma process_snd:
  "snd (process h w cctx p tree) = snd (process_body h w cctx p tree)"
  by (simp add: process_def split: prod.splits sum.splits exn.splits)

lemma process_body_duplicate:
  assumes "File_new h p = Inr fh" and "filename fh \<notin> set (ignore_from_incoming cctx)"
    and "load_attributes h fh = None" and "check_facets h fh = None"
    and "DRSPath_new h fh = Inr fph"
    and "startswith (lower (path_default fph)) (lower (project cctx))"
    and "check_latest h w cctx fh fph tree = (Inr dup, tree1)"
  shows "process_body h w cctx p tree =
           (case generate w cctx fh fph dup tree1 of
              (Some e, tree2) \<Rightarrow> (Inl e, tree2)
            | (None, tree2) \<Rightarrow> (Inr True, record_incoming fh fph tree2))"
  using assms by (simp add: process_body_def)

lemma Process_body_after_detect:
  assumes "path_name source \<notin> set (ignore_from_incoming ctx)"
    and "get_ncattrs u source = Inr attrs"
    and "attrs' = attrs(''filename'' \<mapsto> path_name source, ''dataset-version'' \<mapsto> drs_version tree)"
    and "drs_path u attrs' = Inr (Some d)"
    and "cp = root_ctx ctx @ d @ [path_name source]"
    and "detect u w ctx attrs' cp (with_latest_version u cp) = Inr (dup, lv)"
  shows "Process_body u w ctx source tree =
           (case generate_make u w ctx source cp (with_latest_version u cp) dup tree of
              (Some e, tree1) \<Rightarrow> (Inl e, tree1)
            | (None, tree1) \<Rightarrow>
                (case record_make u source cp dup lv tree1 of
                   (Some e, tree2) \<Rightarrow> (Inl e, tree2)
                 | (None, tree2) \<Rightarrow> (Inr (Some True), tree2)))"
  using assms(1,2,4,6) unfolding assms(3) assms(5)
  by (simp add: Process_body_def Let_def)

text \<open>
  Claim C4. A file found to be a duplicate of the file of the same name in the latest
  version: with \<^verbatim>\<open>upgrade_from_latest\<close> the worker raises
  \<^verbatim>\<open>DuplicatedFile(latest file, source)\<close>, answers \<^verbatim>\<open>None\<close> and queues no leaf; without it,
  and when the latest file is a link that can be read, exactly one leaf is queued, a
  symbolic link whose source is the target of the latest file, and the incoming path is
  appended to the duplicates exactly when the mode is \<^verbatim>\<open>move\<close>. First conjunct:
  \<^verbatim>\<open>process\<close> of \<^verbatim>\<open>main.py\<close>; second conjunct: \<^verbatim>\<open>Process.__call__\<close> of \<^verbatim>\<open>make.py\<close>,
  where the bookkeeping that follows the leaf may still fail its assertion.
\<close>

theorem C4_duplicate_handling:
  "(File_new h p = Inr fh \<and> filename fh \<notin> set (ignore_from_incoming cctx)
      \<and> load_attributes h fh = None \<and> check_facets h fh = None \<and> DRSPath_new h fh = Inr fph
      \<and> startswith (lower (path_default fph)) (lower (project cctx))
      \<and> check_latest h w cctx fh fph tree = (Inr True, tchk)
      \<and> latest_file = os_path_join [path_latest_root fph, filename fh]
    \<longrightarrow>
      (upgrade_from_latest cctx \<longrightarrow>
         fst (process_body h w cctx p tree) = Inl (DuplicatedFile latest_file (ffp fh))
         \<and> fst (process h w cctx p tree) = Inr None
         \<and> leaves (snd (process h w cctx p tree)) = leaves tree
         \<and> duplicates (snd (process h w cctx p tree)) = duplicates tree)
      \<and> (\<not> upgrade_from_latest cctx \<and> readlink w latest_file = Inr target \<longrightarrow>
         fst (process h w cctx p tree) = Inr (Some True)
         \<and> leaves (snd (process h w cctx p tree)) = leaves tree @ [duplicate_leaf fh fph target]
         \<and> mode (duplicate_leaf fh fph target) = ''symlink''
         \<and> src (duplicate_leaf fh fph target) = SrcStr target
         \<and> duplicates (snd (process h w cctx p tree))
             = duplicates tree @ (if mode_ctx cctx = ''move'' then [ffp fh] else [])))
   \<and>
   (path_name source \<notin> set (ignore_from_incoming ctx) \<and> get_ncattrs u source = Inr attrs
      \<and> attrs' = attrs(''filename'' \<mapsto> path_name source, ''dataset-version'' \<mapsto> drs_version mtree)
      \<and> drs_path u attrs' = Inr (Some d) \<and> cp = root_ctx ctx @ d @ [path_name source]
      \<and> with_latest_version u cp = Some lp
      \<and> detect u w ctx attrs' cp (Some lp) = Inr (True, lv)
    \<longrightarrow>
      (upgrade_from_latest ctx \<longrightarrow>
         fst (Process_body u w ctx source mtree) = Inl (DuplicatedFile (path_str lp) (path_str source))
         \<and> (tree_sh sh = mtree \<longrightarrow> fst (Process_call u w ctx source sh) = Inr None)
         \<and> leaves (snd (Process_body u w ctx source mtree)) = leaves mtree
         \<and> duplicates (snd (Process_body u w ctx source mtree)) = duplicates mtree)
      \<and> (\<not> upgrade_from_latest ctx \<and> readlink w (path_str lp) = Inr target \<longrightarrow>
         (fst (Process_body u w ctx source mtree) = Inr (Some True)
            \<or> fst (Process_body u w ctx source mtree) = Inl AssertionError)
         \<and> leaves (snd (Process_body u w ctx source mtree)) = leaves mtree @ [duplicate_leaf_make cp target]
         \<and> mode (duplicate_leaf_make cp target) = ''symlink''
         \<and> src (duplicate_leaf_make cp target) = SrcStr target
         \<and> duplicates (snd (Process_body u w ctx source mtree))
             = duplicates mtree @ (if mode_ctx ctx = ''move'' then [source] else [])))"
proof (intro conjI impI; (elim conjE)?)
  assume a: "File_new h p = Inr fh" "filename fh \<notin> set (ignore_from_incoming cctx)"
    "load_attributes h fh = None" "check_facets h fh = None" "DRSPath_new h fh = Inr fph"
    "startswith (lower (path_default fph)) (lower (project cctx))"
    "check_latest h w cctx fh fph tree = (Inr True, tchk)"
    "latest_file = os_path_join [path_latest_root fph, filename fh]"
  note pb = process_body_duplicate[OF a(1-7)]
  note cl = check_latest_fields[OF a(7)]
  {
    assume up: "upgrade_from_latest cctx"
    have g: "generate w cctx fh fph True tchk = (Some (DuplicatedFile latest_file (ffp fh)), tchk)"
      using up a(8) by (simp add: generate_def Let_def)
    show "fst (process_body h w cctx p tree) = Inl (DuplicatedFile latest_file (ffp fh))"
      using pb g by simp
    then show "fst (process h w cctx p tree) = Inr None" by (simp add: process_fst)
    show "leaves (snd (process h w cctx p tree)) = leaves tree"
      using pb g cl by (simp add: process_snd)
    show "duplicates (snd (process h w cctx p tree)) = duplicates tree"
      using pb g cl by (simp add: process_snd)
  }
  {
    assume nu: "\<not> upgrade_from_latest cctx" and rl: "readlink w latest_file = Inr target"
    let ?t1 = "create_leaf (duplicate_leaf fh fph target) tchk"
    let ?t2 = "if mode_ctx cctx = ''move'' then ?t1\<lparr>duplicates := duplicates ?t1 @ [ffp fh]\<rparr> else ?t1"
    have g: "generate w cctx fh fph True tchk = (None, ?t2)"
      using nu rl a(8) by (simp add: generate_def Let_def)
    have b: "process_body h w cctx p tree = (Inr True, record_incoming fh fph ?t2)"
      using pb g by simp
    show "fst (process h w cctx p tree) = Inr (Some True)" using b by (simp add: process_fst)
    show "leaves (snd (process h w cctx p tree)) = leaves tree @ [duplicate_leaf fh fph target]"
      using b cl by (simp add: process_snd record_incoming_fields create_leaf_fields)
    show "duplicates (snd (process h w cctx p tree))
             = duplicates tree @ (if mode_ctx cctx = ''move'' then [ffp fh] else [])"
      using b cl by (simp add: process_snd record_incoming_fields create_leaf_fields)
    show "mode (duplicate_leaf fh fph target) = ''symlink''" by (simp add: duplicate_leaf_def)
    show "src (duplicate_leaf fh fph target) = SrcStr target" by (simp add: duplicate_leaf_def)
  }
next
  assume a: "path_name source \<notin> set (ignore_from_incoming ctx)" "get_ncattrs u source = Inr attrs"
    "attrs' = attrs(''filename'' \<mapsto> path_name source, ''dataset-version'' \<mapsto> drs_version mtree)"
    "drs_path u attrs' = Inr (Some d)" "cp = root_ctx ctx @ d @ [path_name source]"
    "with_latest_version u cp = Some lp"
    "detect u w ctx attrs' cp (Some lp) = Inr (True, lv)"
  have d: "detect u w ctx attrs' cp (with_latest_version u cp) = Inr (True, lv)"
    using a(6,7) by simp
  note pb = Process_body_after_detect[OF a(1-5) d, unfolded a(6)]
  {
    assume up: "upgrade_from_latest ctx"
    have g: "generate_make u w ctx source cp (Some lp) True mtree
               = (Some (DuplicatedFile (path_str lp) (path_str source)), mtree)"
      using up by (simp add: generate_make_def)
    show b: "fst (Process_body u w ctx source mtree) = Inl (DuplicatedFile (path_str lp) (path_str source))"
      using pb g by simp
    show "fst (Process_call u w ctx source sh) = Inr None" if "tree_sh sh = mtree"
      using b that by (simp add: Process_call_fst)
    show "leaves (snd (Process_body u w ctx source mtree)) = leaves mtree" using pb g by simp
    show "duplicates (snd (Process_body u w ctx source mtree)) = duplicates mtree" using pb g by simp
  }
  {
    assume nu: "\<not> upgrade_from_latest ctx" and rl: "readlink w (path_str lp) = Inr target"
    let ?t1 = "create_leaf (duplicate_leaf_make cp target) mtree"
    let ?t2 = "if mode_ctx ctx = ''move'' then ?t1\<lparr>duplicates := duplicates ?t1 @ [source]\<rparr> else ?t1"
    have g: "generate_make u w ctx source cp (Some lp) True mtree = (None, ?t2)"
      using nu rl by (simp add: generate_make_def Let_def)
    obtain r t3 where rm: "record_make u source cp True lv ?t2 = (r, t3)" by fastforce
    have r: "r = None \<or> r = Some AssertionError"
      using record_make_result[of u source cp True lv ?t2] rm by simp
    have t3: "leaves t3 = leaves ?t2" "duplicates t3 = duplicates ?t2"
      using record_make_fields[of u source cp True lv ?t2] rm by simp_all
    have b: "Process_body u w ctx source mtree = (case r of Some e \<Rightarrow> (Inl e, t3) | None \<Rightarrow> (Inr (Some True), t3))"
      using pb g rm by (simp split: option.splits)
    show "fst (Process_body u w ctx source mtree) = Inr (Some True)
            \<or> fst (Process_body u w ctx source mtree) = Inl AssertionError"
      using b r by auto
    show "leaves (snd (Process_body u w ctx source mtree)) = leaves mtree @ [duplicate_leaf_make cp target]"
      using b r t3 by (auto simp: create_leaf_fields)
    show "duplicates (snd (Process_body u w ctx source mtree))
             = duplicates mtree @ (if mode_ctx ctx = ''move'' then [source] else [])"
      using b r t3 by (auto simp: create_leaf_fields)
    show "mode (duplicate_leaf_make cp target) = ''symlink''" by (simp add: duplicate_leaf_make_def)
    show "src (duplicate_leaf_make cp target) = SrcStr target" by (simp add: duplicate_leaf_make_def)
  }
qed

theorem C4_duplicate_handling_witness:
  "fst (process (ex_handlers (Some ''v20200101'') ''aaa'') ex_os ex_ctx ''/in/a.nc'' ex_tree) = Inr (Some True)
   \<and> leaves (snd (process (ex_handlers (Some ''v20200101'') ''aaa'') ex_os ex_ctx ''/in/a.nc'' ex_tree))
       = [duplicate_leaf ex_file (ex_fph (Some ''v20200101'')) ''../files/d20200101/a.nc'']
   \<and> duplicates (snd (process (ex_handlers (Some ''v20200101'') ''aaa'') ex_os ex_ctx ''/in/a.nc'' ex_tree))
       = [''/in/a.nc'']
   \<and> leaves (snd (Process_body (ex_utils ''v20200103'' (Some ''t1'') (Some ''t1'') 10 ''aaa'') ex_os ex_ctx
                    ex_source ex_tree))
       = [duplicate_leaf_make ex_current ''../files/d20200101/a.nc'']
   \<and> duplicates (snd (Process_body (ex_utils ''v20200103'' (Some ''t1'') (Some ''t1'') 10 ''aaa'') ex_os ex_ctx
                    ex_source ex_tree))
       = [ex_source]
   \<and> fst (process_body (ex_handlers (Some ''v20200101'') ''aaa'') ex_os (ex_ctx\<lparr>upgrade_from_latest := True\<rparr>)
             ''/in/a.nc'' ex_tree)
       = Inl (DuplicatedFile ''/drs/CMIP6/tas/latest/a.nc'' ''/in/a.nc'')
   \<and> fst (process (ex_handlers (Some ''v20200101'') ''aaa'') ex_os (ex_ctx\<lparr>upgrade_from_latest := True\<rparr>)
             ''/in/a.nc'' ex_tree) = Inr None
   \<and> leaves (snd (process (ex_handlers (Some ''v20200101'') ''aaa'') ex_os (ex_ctx\<lparr>upgrade_from_latest := True\<rparr>)
             ''/in/a.nc'' ex_tree)) = []
   \<and> fst (Process_body (ex_utils ''v20200103'' (Some ''t1'') (Some ''t1'') 10 ''aaa'') ex_os
             (ex_ctx\<lparr>upgrade_from_latest := True\<rparr>) ex_source ex_tree)
       = Inl (DuplicatedFile ''/drs/CMIP6/tas/v20200103/a.nc'' ''/in/a.nc'')
   \<and> fst (Process_call (ex_utils ''v20200103'' (Some ''t1'') (Some ''t1'') 10 ''aaa'') ex_os
             (ex_ctx\<lparr>upgrade_from_latest := True\<rparr>) ex_source ex_shared) = Inr None
   \<and> leaves (snd (Process_body (ex_utils ''v20200103'' (Some ''t1'') (Some ''t1'') 10 ''aaa'') ex_os
             (ex_ctx\<lparr>upgrade_from_latest := True\<rparr>) ex_source ex_tree)) = []"
proof -
  let ?h = "ex_handlers (Some ''v20200101'') ''aaa''"
  let ?fph = "ex_fph (Some ''v20200101'')"
  let ?u = "ex_utils ''v20200103'' (Some ''t1'') (Some ''t1'') 10 ''aaa''"
  let ?attrs = "\<lambda>k. if k = ''tracking_id'' then Some ''t1'' else None"
  let ?attrs' = "?attrs(''filename'' \<mapsto> path_name ex_source, ''dataset-version'' \<mapsto> drs_version (ex_tree :: tree_make))"
  let ?up = "ex_ctx\<lparr>upgrade_from_latest := True\<rparr>"
  have m1: "File_new ?h ''/in/a.nc'' = Inr ex_file" "filename ex_file \<notin> set (ignore_from_incoming c)"
    "load_attributes ?h ex_file = None" "check_facets ?h ex_file = None" "DRSPath_new ?h ex_file = Inr ?fph"
    if "c = ex_ctx \<or> c = ?up" for c
    using that by (auto simp: ex_handlers_def ex_file_def ex_ctx_def)
  have m2: "startswith (lower (path_default ?fph)) (lower (project ex_ctx))"
    "startswith (lower (path_default ?fph)) (lower (project ?up))" by code_simp+
  have "fst (check_latest ?h ex_os ex_ctx ex_file ?fph ex_tree) = Inr True"
    "fst (check_latest ?h ex_os ?up ex_file ?fph ex_tree) = Inr True" by code_simp+
  then have m3: "check_latest ?h ex_os ex_ctx ex_file ?fph ex_tree
                  = (Inr True, snd (check_latest ?h ex_os ex_ctx ex_file ?fph ex_tree))"
     "check_latest ?h ex_os ?up ex_file ?fph ex_tree
                  = (Inr True, snd (check_latest ?h ex_os ?up ex_file ?fph ex_tree))"
    by (simp_all add: prod_eq_iff)
  have m4: "\<not> upgrade_from_latest ex_ctx" "upgrade_from_latest ?up" by (simp_all add: ex_ctx_def)
  have m5: "readlink ex_os (os_path_join [path_latest_root ?fph, filename ex_file]) = Inr ''../files/d20200101/a.nc''"
    "os_path_join [path_latest_root ?fph, filename ex_file] = ''/drs/CMIP6/tas/latest/a.nc''"
    by code_simp+
  have k1: "path_name ex_source \<notin> set (ignore_from_incoming ex_ctx)"
    "path_name ex_source \<notin> set (ignore_from_incoming ?up)" by (simp_all add: ex_ctx_def)
  have k2: "get_ncattrs ?u ex_source = Inr ?attrs" by (simp add: ex_utils_def)
  have k3: "drs_path ?u ?attrs' = Inr (Some [''CMIP6'', ''tas'', ''v20200102''])" by (simp add: ex_utils_def)
  have k4: "ex_current = root_ctx ex_ctx @ [''CMIP6'', ''tas'', ''v20200102''] @ [path_name ex_source]"
    "ex_current = root_ctx ?up @ [''CMIP6'', ''tas'', ''v20200102''] @ [path_name ex_source]"
    by code_simp+
  have k5: "with_latest_version ?u ex_current = Some (ex_latest ''v20200103'')" by code_simp
  have k6: "detect ?u ex_os ex_ctx ?attrs' ex_current (Some (ex_latest ''v20200103'')) = Inr (True, ''v20200103'')"
    "detect ?u ex_os ?up ?attrs' ex_current (Some (ex_latest ''v20200103'')) = Inr (True, ''v20200103'')"
    by code_simp+
  have k7: "readlink ex_os (path_str (ex_latest ''v20200103'')) = Inr ''../files/d20200101/a.nc''"
    "path_str (ex_latest ''v20200103'') = ''/drs/CMIP6/tas/v20200103/a.nc''"
    "path_str ex_source = ''/in/a.nc''"
    by code_simp+
  have e: "leaves (ex_tree :: tree_main) = []" "duplicates (ex_tree :: tree_main) = []"
     "leaves (ex_tree :: tree_make) = []" "duplicates (ex_tree :: tree_make) = []" "mode_ctx ex_ctx = ''move''"
     "ffp ex_file = ''/in/a.nc''" "tree_sh ex_shared = ex_tree"
    by (simp_all add: ex_tree_def ex_ctx_def ex_file_def ex_shared_def)
  have w1: "fst (process ?h ex_os ex_ctx ''/in/a.nc'' ex_tree) = Inr (Some True)
   \<and> leaves (snd (process ?h ex_os ex_ctx ''/in/a.nc'' ex_tree))
       = [duplicate_leaf ex_file ?fph ''../files/d20200101/a.nc'']
   \<and> duplicates (snd (process ?h ex_os ex_ctx ''/in/a.nc'' ex_tree)) = [''/in/a.nc'']
   \<and> leaves (snd (Process_body ?u ex_os ex_ctx ex_source ex_tree))
       = [duplicate_leaf_make ex_current ''../files/d20200101/a.nc'']
   \<and> duplicates (snd (Process_body ?u ex_os ex_ctx ex_source ex_tree)) = [ex_source]"
    using C4_duplicate_handling[where h = ?h and p = "''/in/a.nc''" and fh = ex_file and cctx = ex_ctx
      and fph = ?fph and w = ex_os and tree = ex_tree
      and tchk = "snd (check_latest ?h ex_os ex_ctx ex_file ?fph ex_tree)"
      and latest_file = "os_path_join [path_latest_root ?fph, filename ex_file]"
      and target = "''../files/d20200101/a.nc''"
      and u = ?u and source = ex_source and ctx = ex_ctx and attrs = ?attrs and attrs' = ?attrs'
      and mtree = ex_tree and d = "[''CMIP6'', ''tas'', ''v20200102'']" and cp = ex_current
      and lp = "ex_latest ''v20200103''" and lv = "''v20200103''"]
      m1[of ex_ctx] m2 m3 m4 m5(1) k1 k2 k3 k4 k5 k6 k7(1) e by simp
  have w2: "fst (process_body ?h ex_os ?up ''/in/a.nc'' ex_tree)
       = Inl (DuplicatedFile ''/drs/CMIP6/tas/latest/a.nc'' ''/in/a.nc'')
   \<and> fst (process ?h ex_os ?up ''/in/a.nc'' ex_tree) = Inr None
   \<and> leaves (snd (process ?h ex_os ?up ''/in/a.nc'' ex_tree)) = []
   \<and> fst (Process_body ?u ex_os ?up ex_source ex_tree)
       = Inl (DuplicatedFile ''/drs/CMIP6/tas/v20200103/a.nc'' ''/in/a.nc'')
   \<and> fst (Process_call ?u ex_os ?up ex_source ex_shared) = Inr None
   \<and> leaves (snd (Process_body ?u ex_os ?up ex_source ex_tree)) = []"
    using C4_duplicate_handling[where h = ?h and p = "''/in/a.nc''" and fh = ex_file and cctx = ?up
      and fph = ?fph and w = ex_os and tree = ex_tree
      and tchk = "snd (check_latest ?h ex_os ?up ex_file ?fph ex_tree)"
      and latest_file = "''/drs/CMIP6/tas/latest/a.nc''"
      and u = ?u and source = ex_source and ctx = ?up and attrs = ?attrs and attrs' = ?attrs'
      and mtree = ex_tree and d = "[''CMIP6'', ''tas'', ''v20200102'']" and cp = ex_current
      and lp = "ex_latest ''v20200103''" and lv = "''v20200103''" and sh = ex_shared]
      m1[of ?up] m2 m3 m4 m5(2) k1 k2 k3 k4 k5 k6 k7(2,3) e by simp
  from w1 w2 show ?thesis by simp
qed

subsection \<open>The leaves of a new file, at concrete inputs and in \<^verbatim>\<open>make.py\<close>\<close>

lemma make_three_leaves:
  assumes "path_name source \<notin> set (ignore_from_incoming ctx)"
    and "get_ncattrs u source = Inr attrs"
    and "attrs' = attrs(''filename'' \<mapsto> path_name source, ''dataset-version'' \<mapsto> drs_version tree)"
    and "drs_path u attrs' = Inr (Some d)"
    and "cp = root_ctx ctx @ d @ [path_name source]"
    and "detect u w ctx attrs' cp (with_latest_version u cp) = Inr (False, lv)"
  shows "leaves (snd (Process_body u w ctx source tree))
           = leaves tree @ [version_leaf_make u cp, latest_leaf_make u cp tree, files_leaf_make u ctx cp]"
    and "src (files_leaf_make u ctx cp) = SrcPath cp" and "mode (files_leaf_make u ctx cp) = mode_ctx ctx"
proof -
  note pb = Process_body_after_detect[OF assms(1-6)]
  obtain r t1 where g: "generate_make u w ctx source cp (with_latest_version u cp) False tree = (r, t1)"
    by fastforce
  have t1: "leaves t1 = leaves tree @ [version_leaf_make u cp, latest_leaf_make u cp tree, files_leaf_make u ctx cp]"
    using g by (auto simp: generate_make_def Let_def create_leaf_fields split: option.splits if_splits)
  show "leaves (snd (Process_body u w ctx source tree))
           = leaves tree @ [version_leaf_make u cp, latest_leaf_make u cp tree, files_leaf_make u ctx cp]"
    using pb g t1 record_make_fields(1)[of u source cp False lv t1]
    by (auto split: option.splits prod.splits)
  show "src (files_leaf_make u ctx cp) = SrcPath cp" "mode (files_leaf_make u ctx cp) = mode_ctx ctx"
    by (simp_all add: files_leaf_make_def)
qed

text \<open>
  Claim C3, as amended. For a file that is handled successfully and is not a duplicate, the
  leaves queued begin with three, in this order: the symbolic link in the version folder,
  whose source is the relative path of \<^verbatim>\<open>..\<close> components followed by the components into
  the files folder; the symbolic link \<^verbatim>\<open>latest\<close> at the dataset level, whose source is
  the upgrade version; the leaf of the file itself in the files folder, whose mode is the
  configured one. First conjunct, \<^verbatim>\<open>process\<close> of \<^verbatim>\<open>main.py\<close>: the source of the third leaf
  is the incoming path; nothing follows the three leaves when \<^verbatim>\<open>upgrade_from_latest\<close> is
  off, and what follows them otherwise are symbolic links in the version folder for other
  file names. Second conjunct, \<^verbatim>\<open>Process.__call__\<close> of \<^verbatim>\<open>make.py\<close>: the three leaves are
  all that is queued.
\<close>

theorem C3_three_leaves_first:
  "(process h w cctx p tree = (Inr (Some True), tree')
      \<and> File_new h p = Inr fh \<and> DRSPath_new h fh = Inr fph
      \<and> check_latest h w cctx fh fph tree = (Inr False, tchk)
    \<longrightarrow>
      (\<exists>extra. leaves tree' = leaves tree @ [version_leaf fh fph, latest_leaf fph, files_leaf cctx fh fph] @ extra
          \<and> (\<not> upgrade_from_latest cctx \<longrightarrow> extra = [])
          \<and> (\<forall>l \<in> set extra. nodes l = items_root fph \<and> mode l = ''symlink'' \<and> leaf l \<noteq> Some (filename fh)))
      \<and> nodes (version_leaf fh fph) = items_root fph \<and> leaf (version_leaf fh fph) = Some (filename fh)
      \<and> mode (version_leaf fh fph) = ''symlink''
      \<and> src (version_leaf fh fph) =
          SrcStr (os_path_join (replicate (length (items_down fph)) ''..'' @ items_down_files fph @ [filename fh]))
      \<and> nodes (latest_leaf fph) = items_dataset_root fph \<and> leaf (latest_leaf fph) = Some ''latest''
      \<and> mode (latest_leaf fph) = ''symlink'' \<and> src (latest_leaf fph) = SrcStr (v_upgrade fph)
      \<and> nodes (files_leaf cctx fh fph) = items_files_root fph \<and> leaf (files_leaf cctx fh fph) = Some (filename fh)
      \<and> mode (files_leaf cctx fh fph) = mode_ctx cctx \<and> src (files_leaf cctx fh fph) = SrcStr (ffp fh))
   \<and>
   (fst (Process_body u w ctx source mtree) = Inr (Some True)
      \<and> path_name source \<notin> set (ignore_from_incoming ctx) \<and> get_ncattrs u source = Inr attrs
      \<and> attrs' = attrs(''filename'' \<mapsto> path_name source, ''dataset-version'' \<mapsto> drs_version mtree)
      \<and> drs_path u attrs' = Inr (Some d) \<and> cp = root_ctx ctx @ d @ [path_name source]
      \<and> detect u w ctx attrs' cp (with_latest_version u cp) = Inr (False, lv)
    \<longrightarrow>
      leaves (snd (Process_body u w ctx source mtree))
        = leaves mtree @ [version_leaf_make u cp, latest_leaf_make u cp mtree, files_leaf_make u ctx cp]
      \<and> nodes (version_leaf_make u cp) = cp \<and> mode (version_leaf_make u cp) = ''symlink''
      \<and> src (version_leaf_make u cp) =
          SrcStr (os_path_join (replicate (length (get_drs_down u cp)) ''..'' @ [''files'']
                                @ get_drs_down u (with_file_folder u cp)))
      \<and> nodes (latest_leaf_make u cp mtree) = path_parent (dataset_path u cp) @ [''latest'']
      \<and> mode (latest_leaf_make u cp mtree) = ''symlink''
      \<and> src (latest_leaf_make u cp mtree) = SrcStr (drs_version mtree)
      \<and> nodes (files_leaf_make u ctx cp) = with_file_folder u cp
      \<and> mode (files_leaf_make u ctx cp) = mode_ctx ctx)"
proof (intro conjI impI; (elim conjE)?)
  assume a: "process h w cctx p tree = (Inr (Some True), tree')" "File_new h p = Inr fh"
    "DRSPath_new h fh = Inr fph" "check_latest h w cctx fh fph tree = (Inr False, tchk)"
  note m = process_three_leaves_first[OF a]
  from m show "\<exists>extra. leaves tree' = leaves tree @ [version_leaf fh fph, latest_leaf fph, files_leaf cctx fh fph] @ extra
          \<and> (\<not> upgrade_from_latest cctx \<longrightarrow> extra = [])
          \<and> (\<forall>l \<in> set extra. nodes l = items_root fph \<and> mode l = ''symlink'' \<and> leaf l \<noteq> Some (filename fh))"
    by (rule conjunct1)
  show "nodes (version_leaf fh fph) = items_root fph" "leaf (version_leaf fh fph) = Some (filename fh)"
    "mode (version_leaf fh fph) = ''symlink''"
    "src (version_leaf fh fph) =
          SrcStr (os_path_join (replicate (length (items_down fph)) ''..'' @ items_down_files fph @ [filename fh]))"
    "nodes (latest_leaf fph) = items_dataset_root fph" "leaf (latest_leaf fph) = Some ''latest''"
    "mode (latest_leaf fph) = ''symlink''" "src (latest_leaf fph) = SrcStr (v_upgrade fph)"
    "nodes (files_leaf cctx fh fph) = items_files_root fph" "leaf (files_leaf cctx fh fph) = Some (filename fh)"
    "mode (files_leaf cctx fh fph) = mode_ctx cctx" "src (files_leaf cctx fh fph) = SrcStr (ffp fh)"
    by (simp_all add: version_leaf_def latest_leaf_def files_leaf_def version_src_def)
next
  assume "fst (Process_body u w ctx source mtree) = Inr (Some True)"
    and a: "path_name source \<notin> set (ignore_from_incoming ctx)" "get_ncattrs u source = Inr attrs"
    "attrs' = attrs(''filename'' \<mapsto> path_name source, ''dataset-version'' \<mapsto> drs_version mtree)"
    "drs_path u attrs' = Inr (Some d)" "cp = root_ctx ctx @ d @ [path_name source]"
    "detect u w ctx attrs' cp (with_latest_version u cp) = Inr (False, lv)"
  show "leaves (snd (Process_body u w ctx source mtree))
        = leaves mtree @ [version_leaf_make u cp, latest_leaf_make u cp mtree, files_leaf_make u ctx cp]"
    by (rule make_three_leaves(1)[OF a])
  show "nodes (version_leaf_make u cp) = cp" "mode (version_leaf_make u cp) = ''symlink''"
    "src (version_leaf_make u cp) =
          SrcStr (os_path_join (replicate (length (get_drs_down u cp)) ''..'' @ [''files'']
                                @ get_drs_down u (with_file_folder u cp)))"
    "nodes (latest_leaf_make u cp mtree) = path_parent (dataset_path u cp) @ [''latest'']"
    "mode (latest_leaf_make u cp mtree) = ''symlink''"
    "src (latest_leaf_make u cp mtree) = SrcStr (drs_version mtree)"
    "nodes (files_leaf_make u ctx cp) = with_file_folder u cp"
    "mode (files_leaf_make u ctx cp) = mode_ctx ctx"
    by (simp_all add: version_leaf_make_def latest_leaf_make_def files_leaf_make_def version_src_make_def)
qed

theorem C3_three_leaves_first_witness:
  "fst (process (ex_handlers (Some ''v20200101'') ''bbb'') ex_os ex_ctx ''/in/a.nc'' ex_tree) = Inr (Some True)
   \<and> leaves (snd (process (ex_handlers (Some ''v20200101'') ''bbb'') ex_os ex_ctx ''/in/a.nc'' ex_tree))
       = [version_leaf ex_file (ex_fph (Some ''v20200101'')), latest_leaf (ex_fph (Some ''v20200101'')),
          files_leaf ex_ctx ex_file (ex_fph (Some ''v20200101''))]
   \<and> src (version_leaf ex_file (ex_fph (Some ''v20200101''))) = SrcStr ''../files/d20200102/a.nc''
   \<and> src (latest_leaf (ex_fph (Some ''v20200101''))) = SrcStr ''v20200102''
   \<and> src (files_leaf ex_ctx ex_file (ex_fph (Some ''v20200101''))) = SrcStr ''/in/a.nc''
   \<and> mode (files_leaf ex_ctx ex_file (ex_fph (Some ''v20200101''))) = ''move''
   \<and> fst (Process_body (ex_utils ''v20200103'' (Some ''t1'') (Some ''t2'') 10 ''bbb'') ex_os ex_ctx
             ex_source ex_tree) = Inr (Some True)
   \<and> leaves (snd (Process_body (ex_utils ''v20200103'' (Some ''t1'') (Some ''t2'') 10 ''bbb'') ex_os ex_ctx
             ex_source ex_tree))
       = [version_leaf_make (ex_utils ''v20200103'' (Some ''t1'') (Some ''t2'') 10 ''bbb'') ex_current,
          latest_leaf_make (ex_utils ''v20200103'' (Some ''t1'') (Some ''t2'') 10 ''bbb'') ex_current ex_tree,
          files_leaf_make (ex_utils ''v20200103'' (Some ''t1'') (Some ''t2'') 10 ''bbb'') ex_ctx ex_current]
   \<and> src (version_leaf_make (ex_utils ''v20200103'' (Some ''t1'') (Some ''t2'') 10 ''bbb'') ex_current)
       = SrcStr ''../files/d20200102/a.nc''
   \<and> mode (files_leaf_make (ex_utils ''v20200103'' (Some ''t1'') (Some ''t2'') 10 ''bbb'') ex_ctx ex_current)
       = ''move''"
proof -
  let ?h = "ex_handlers (Some ''v20200101'') ''bbb''"
  let ?fph = "ex_fph (Some ''v20200101'')"
  let ?u = "ex_utils ''v20200103'' (Some ''t1'') (Some ''t2'') 10 ''bbb''"
  let ?attrs = "\<lambda>k. if k = ''tracking_id'' then Some ''t1'' else None"
  let ?attrs' = "?attrs(''filename'' \<mapsto> path_name ex_source, ''dataset-version'' \<mapsto> drs_version (ex_tree :: tree_make))"
  have r: "fst (process ?h ex_os ex_ctx ''/in/a.nc'' ex_tree) = Inr (Some True)" by code_simp
  then have a1: "process ?h ex_os ex_ctx ''/in/a.nc'' ex_tree
                  = (Inr (Some True), snd (process ?h ex_os ex_ctx ''/in/a.nc'' ex_tree))"
    by (simp add: prod_eq_iff)
  have a2: "File_new ?h ''/in/a.nc'' = Inr ex_file" "DRSPath_new ?h ex_file = Inr ?fph"
    by (simp_all add: ex_handlers_def)
  have "fst (check_latest ?h ex_os ex_ctx ex_file ?fph ex_tree) = Inr False" by code_simp
  then have a3: "check_latest ?h ex_os ex_ctx ex_file ?fph ex_tree
                  = (Inr False, snd (check_latest ?h ex_os ex_ctx ex_file ?fph ex_tree))"
    by (simp add: prod_eq_iff)
  have e: "\<not> upgrade_from_latest ex_ctx" "leaves (ex_tree :: tree_main) = []" "mode_ctx ex_ctx = ''move''"
    "ffp ex_file = ''/in/a.nc''" "v_upgrade ?fph = ''v20200102''" "leaves (ex_tree :: tree_make) = []"
    by (simp_all add: ex_ctx_def ex_tree_def ex_file_def ex_fph_def)
  have j: "os_path_join (replicate (length (items_down ?fph)) ''..'' @ items_down_files ?fph @ [filename ex_file])
             = ''../files/d20200102/a.nc''"
    "os_path_join (replicate (length (get_drs_down ?u ex_current)) ''..'' @ [''files'']
                     @ get_drs_down ?u (with_file_folder ?u ex_current)) = ''../files/d20200102/a.nc''"
    by code_simp+
  have k0: "fst (Process_body ?u ex_os ex_ctx ex_source ex_tree) = Inr (Some True)" by code_simp
  have k1: "path_name ex_source \<notin> set (ignore_from_incoming ex_ctx)" by (simp add: ex_ctx_def)
  have k2: "get_ncattrs ?u ex_source = Inr ?attrs" by (simp add: ex_utils_def)
  have k3: "drs_path ?u ?attrs' = Inr (Some [''CMIP6'', ''tas'', ''v20200102''])" by (simp add: ex_utils_def)
  have k4: "ex_current = root_ctx ex_ctx @ [''CMIP6'', ''tas'', ''v20200102''] @ [path_name ex_source]"
    by code_simp
  have k5: "detect ?u ex_os ex_ctx ?attrs' ex_current (with_latest_version ?u ex_current)
              = Inr (False, ''v20200103'')"
    by code_simp
  note t = C3_three_leaves_first[where h = ?h and w = ex_os and cctx = ex_ctx and p = "''/in/a.nc''"
      and tree = ex_tree and tree' = "snd (process ?h ex_os ex_ctx ''/in/a.nc'' ex_tree)"
      and fh = ex_file and fph = ?fph and tchk = "snd (check_latest ?h ex_os ex_ctx ex_file ?fph ex_tree)"
      and u = ?u and ctx = ex_ctx and source = ex_source and mtree = ex_tree and attrs = ?attrs
      and attrs' = ?attrs' and d = "[''CMIP6'', ''tas'', ''v20200102'']" and cp = ex_current
      and lv = "''v20200103''"]
  have w1: "leaves (snd (process ?h ex_os ex_ctx ''/in/a.nc'' ex_tree))
       = [version_leaf ex_file ?fph, latest_leaf ?fph, files_leaf ex_ctx ex_file ?fph]
   \<and> src (version_leaf ex_file ?fph) = SrcStr ''../files/d20200102/a.nc''
   \<and> src (latest_leaf ?fph) = SrcStr ''v20200102''
   \<and> src (files_leaf ex_ctx ex_file ?fph) = SrcStr ''/in/a.nc''
   \<and> mode (files_leaf ex_ctx ex_file ?fph) = ''move''"
    using t[THEN conjunct1] a1 a2 a3 e j(1) by auto
  have w2: "leaves (snd (Process_body ?u ex_os ex_ctx ex_source ex_tree))
       = [version_leaf_make ?u ex_current, latest_leaf_make ?u ex_current ex_tree,
          files_leaf_make ?u ex_ctx ex_current]
   \<and> src (version_leaf_make ?u ex_current) = SrcStr ''../files/d20200102/a.nc''
   \<and> mode (files_leaf_make ?u ex_ctx ex_current) = ''move''"
    using t[THEN conjunct2] k0 k1 k2 k3 k4 k5 e j(2) by simp
  from r k0 w1 w2 show ?thesis by simp
qed

theorem C3_exactly_three_counterexample:
  "fst (check_latest (ex_handlers (Some ''v20200101'') ''bbb'') ex_os (ex_ctx\<lparr>upgrade_from_latest := True\<rparr>)
          ex_file (ex_fph (Some ''v20200101'')) ex_tree) = Inr False
   \<and> fst (process (ex_handlers (Some ''v20200101'') ''bbb'') ex_os (ex_ctx\<lparr>upgrade_from_latest := True\<rparr>)
            ''/in/a.nc'' ex_tree) = Inr (Some True)
   \<and> length (leaves (snd (process (ex_handlers (Some ''v20200101'') ''bbb'') ex_os
                 (ex_ctx\<lparr>upgrade_from_latest := True\<rparr>) ''/in/a.nc'' ex_tree))) = 4
   \<and> map leaf (leaves (snd (process (ex_handlers (Some ''v20200101'') ''bbb'') ex_os
                 (ex_ctx\<lparr>upgrade_from_latest := True\<rparr>) ''/in/a.nc'' ex_tree)))
       = [Some ''a.nc'', Some ''latest'', Some ''a.nc'', Some ''b.nc'']
   \<and> map src (leaves (snd (process (ex_handlers (Some ''v20200101'') ''bbb'') ex_os
                 (ex_ctx\<lparr>upgrade_from_latest := True\<rparr>) ''/in/a.nc'' ex_tree)))
       = [SrcStr ''../files/d20200102/a.nc'', SrcStr ''v20200102'', SrcStr ''/in/a.nc'',
          SrcStr ''../files/d20200101/b.nc'']"
  by code_simp

subsection \<open>Copying the previous version forward\<close>

lemma upgrade_files_copies:
  assumes "upgrade_files w cctx fh fph dir names tree = (None, tree')"
    and "n \<in> set names" and "n \<noteq> filename fh" and "n \<notin> set (ignore_from_latest cctx)"
  shows "\<exists>target. readlink w (os_path_join [dir, n]) = Inr target
           \<and> upgrade_leaf w fph dir n target \<in> set (leaves tree')"
  using assms
proof (induction names arbitrary: tree)
  case Nil
  then show ?case by simp
next
  case (Cons a names)
  show ?case
  proof (cases "a \<noteq> filename fh \<and> a \<notin> set (ignore_from_latest cctx)")
    case False
    with Cons.prems have u: "upgrade_files w cctx fh fph dir names tree = (None, tree')" and "n \<in> set names"
      by auto
    with Cons.IH[OF u] Cons.prems show ?thesis by blast
  next
    case q: True
    from q Cons.prems(1) obtain target where
      rl: "readlink w (os_path_join [dir, a]) = Inr target"
      and u: "upgrade_files w cctx fh fph dir names (create_leaf (upgrade_leaf w fph dir a target) tree) = (None, tree')"
      by (auto split: sum.splits)
    show ?thesis
    proof (cases "n = a")
      case True
      from upgrade_files_leaves[OF u] obtain extra where
        "leaves tree' = leaves (create_leaf (upgrade_leaf w fph dir a target) tree) @ extra" by blast
      then have "upgrade_leaf w fph dir a target \<in> set (leaves tree')"
        by (simp add: create_leaf_fields)
      with rl True show ?thesis by blast
    next
      case False
      with Cons.prems have "n \<in> set names" by simp
      from Cons.IH[OF u this Cons.prems(3,4)] show ?thesis .
    qed
  qed
qed

lemma upgrade_walk_copies:
  assumes "upgrade_walk w cctx fh fph ws tree = (None, tree')"
    and "(dir, names) \<in> set ws" and "n \<in> set names"
    and "n \<noteq> filename fh" and "n \<notin> set (ignore_from_latest cctx)"
  shows "\<exists>target. readlink w (os_path_join [dir, n]) = Inr target
           \<and> upgrade_leaf w fph dir n target \<in> set (leaves tree')"
  using assms
proof (induction ws arbitrary: tree)
  case Nil
  then show ?case by simp
next
  case (Cons a ws)
  obtain d0 ns0 where a: "a = (d0, ns0)" by (cases a)
  from Cons.prems(1) a obtain t0 where
    u0: "upgrade_files w cctx fh fph d0 ns0 tree = (None, t0)"
    and u1: "upgrade_walk w cctx fh fph ws t0 = (None, tree')"
    by (auto split: prod.splits option.splits)
  show ?case
  proof (cases "(dir, names) = a")
    case True
    with a u0 have "upgrade_files w cctx fh fph dir names tree = (None, t0)" by simp
    from upgrade_files_copies[OF this Cons.prems(3,4,5)] obtain target where
      t: "readlink w (os_path_join [dir, n]) = Inr target" "upgrade_leaf w fph dir n target \<in> set (leaves t0)"
      by blast
    from upgrade_walk_leaves[OF u1] obtain extra where "leaves tree' = leaves t0 @ extra" by blast
    with t show ?thesis by auto
  next
    case False
    with Cons.prems(2) have "(dir, names) \<in> set ws" by auto
    from Cons.IH[OF u1 this Cons.prems(3,4,5)] show ?thesis .
  qed
qed

lemma main_copy_forward:
  assumes "process h w cctx p tree = (Inr (Some True), tree')"
    and "File_new h p = Inr fh" and "DRSPath_new h fh = Inr fph"
    and "check_latest h w cctx fh fph tree = (Inr False, tchk)"
    and "upgrade_from_latest cctx"
    and "(dir, names) \<in> set (walk w (path_dataset_latest_root fph))" and "n \<in> set names"
    and "n \<noteq> filename fh" and "n \<notin> set (ignore_from_latest cctx)"
  shows "\<exists>target. readlink w (os_path_join [dir, n]) = Inr target
           \<and> upgrade_leaf w fph dir n target \<in> set (leaves tree')
           \<and> nodes (upgrade_leaf w fph dir n target) = items_root fph
           \<and> leaf (upgrade_leaf w fph dir n target) = Some n
           \<and> mode (upgrade_leaf w fph dir n target) = ''symlink''
           \<and> src (upgrade_leaf w fph dir n target) = SrcStr target"
proof -
  from assms(1) have "process_body h w cctx p tree = (Inr True, tree')"
    by (simp add: process_returns_iff)
  from process_body_reaches_generate[OF this assms(2,3,4)] obtain tree2 where
    g: "generate w cctx fh fph False tchk = (None, tree2)" and t: "tree' = record_incoming fh fph tree2"
    by blast
  from g assms(5) have "upgrade_walk w cctx fh fph (walk w (path_dataset_latest_root fph))
      (create_leaf (files_leaf cctx fh fph) (create_leaf (latest_leaf fph) (create_leaf (version_leaf fh fph) tchk)))
      = (None, tree2)"
    by (simp add: generate_def Let_def)
  from upgrade_walk_copies[OF this assms(6-9)] obtain target where
    "readlink w (os_path_join [dir, n]) = Inr target" "upgrade_leaf w fph dir n target \<in> set (leaves tree2)"
    by blast
  then show ?thesis using t by (auto simp: record_incoming_fields upgrade_leaf_def)
qed

lemma upgrade_files_make_raises:
  assumes "n \<in> set names" and "n \<noteq> path_name cp" and "n \<notin> set (ignore_from_latest ctx)"
  shows "upgrade_files_make ctx cp names = Some AttributeError"
  using assms by (induction names) auto

lemma upgrade_walk_make_raises:
  assumes "(dir, names) \<in> set ws" and "n \<in> set names" and "n \<noteq> path_name cp"
    and "n \<notin> set (ignore_from_latest ctx)"
  shows "upgrade_walk_make ctx cp ws = Some AttributeError"
  using assms
proof (induction ws)
  case Nil
  then show ?case by simp
next
  case (Cons a ws)
  obtain d0 ns0 where a: "a = (d0, ns0)" by (cases a)
  show ?case
  proof (cases "upgrade_files_make ctx cp ns0")
    case None
    have "(dir, names) \<noteq> a"
    proof
      assume "(dir, names) = a"
      with a have "names = ns0" by simp
      with upgrade_files_make_raises[OF Cons.prems(2,3,4)] None show False by simp
    qed
    with Cons.prems(1) have "(dir, names) \<in> set ws" by auto
    from Cons.IH[OF this Cons.prems(2,3,4)] None a show ?thesis by simp
  next
    case (Some e)
    have "e = AttributeError"
      using Some by (induction ns0) (auto split: if_splits)
    with Some a show ?thesis by simp
  qed
qed

text \<open>
  Claim C5. With \<^verbatim>\<open>upgrade_from_latest\<close> and a previous version, every file name of the
  previous version other than the processed one and not ignored is to be linked into the
  new version with its existing link target. \<^verbatim>\<open>process\<close> of \<^verbatim>\<open>main.py\<close> does so
  (\<open>main_copy_forward\<close>). \<^verbatim>\<open>Process.__call__\<close> of \<^verbatim>\<open>make.py\<close> never queues such a
  leaf (\<open>make_three_leaves\<close>): it walks the latest file instead of its folder, and for a
  name it would visit, line 228 raises \<^verbatim>\<open>AttributeError\<close>
  (\<open>upgrade_walk_make_raises\<close>). Here the previous version holds \<^verbatim>\<open>a.nc\<close> and
  \<^verbatim>\<open>b.nc\<close> and the incoming file is a changed \<^verbatim>\<open>a.nc\<close>: for the latest version
  \<^verbatim>\<open>v20200101\<close> the call ends in \<^verbatim>\<open>OlderUpgrade\<close> with no leaf; for a latest version that
  passes the version test the call succeeds with the three leaves of \<^verbatim>\<open>a.nc\<close> and none
  for \<^verbatim>\<open>b.nc\<close>; and if the walk lists the folder, the call ends in \<^verbatim>\<open>AttributeError\<close>.
\<close>

theorem C5_make_no_copy_forward:
  "walk ex_os ''/drs/CMIP6/tas/v20200103'' = [(''/drs/CMIP6/tas/v20200103'', [''a.nc'', ''b.nc''])]
   \<and> fst (Process_call (ex_utils ''v20200101'' (Some ''t1'') (Some ''t2'') 10 ''bbb'') ex_os
            (ex_ctx\<lparr>upgrade_from_latest := True\<rparr>) ex_source ex_shared) = Inr None
   \<and> fst (Process_body (ex_utils ''v20200101'' (Some ''t1'') (Some ''t2'') 10 ''bbb'') ex_os
            (ex_ctx\<lparr>upgrade_from_latest := True\<rparr>) ex_source ex_tree)
       = Inl (OlderUpgrade ''v20200102'' ''v20200101'')
   \<and> leaves (snd (Process_body (ex_utils ''v20200101'' (Some ''t1'') (Some ''t2'') 10 ''bbb'') ex_os
            (ex_ctx\<lparr>upgrade_from_latest := True\<rparr>) ex_source ex_tree)) = []
   \<and> fst (Process_call (ex_utils ''v20200103'' (Some ''t1'') (Some ''t2'') 10 ''bbb'') ex_os
            (ex_ctx\<lparr>upgrade_from_latest := True\<rparr>) ex_source ex_shared) = Inr (Some True)
   \<and> map label (leaves (snd (Process_body (ex_utils ''v20200103'' (Some ''t1'') (Some ''t2'') 10 ''bbb'') ex_os
            (ex_ctx\<lparr>upgrade_from_latest := True\<rparr>) ex_source ex_tree)))
       = [''a.nc --> ../files/d20200102/a.nc'', ''latest --> v20200102'', ''a.nc'']
   \<and> fst (Process_body (ex_utils ''v20200103'' (Some ''t1'') (Some ''t2'') 10 ''bbb'')
            (ex_os\<lparr>walk := \<lambda>p. [(''/drs/CMIP6/tas/v20200103'', [''a.nc'', ''b.nc''])]\<rparr>)
            (ex_ctx\<lparr>upgrade_from_latest := True\<rparr>) ex_source ex_tree)
       = Inl AttributeError
   \<and> fst (Process_call (ex_utils ''v20200103'' (Some ''t1'') (Some ''t2'') 10 ''bbb'')
            (ex_os\<lparr>walk := \<lambda>p. [(''/drs/CMIP6/tas/v20200103'', [''a.nc'', ''b.nc''])]\<rparr>)
            (ex_ctx\<lparr>upgrade_from_latest := True\<rparr>) ex_source ex_shared)
       = Inr None
   \<and> map label (leaves (snd (Process_body (ex_utils ''v20200103'' (Some ''t1'') (Some ''t2'') 10 ''bbb'')
            (ex_os\<lparr>walk := \<lambda>p. [(''/drs/CMIP6/tas/v20200103'', [''a.nc'', ''b.nc''])]\<rparr>)
            (ex_ctx\<lparr>upgrade_from_latest := True\<rparr>) ex_source ex_tree)))
       = [''a.nc --> ../files/d20200102/a.nc'', ''latest --> v20200102'', ''a.nc'']"
  by code_simp

subsection \<open>The records of a dataset\<close>

lemma record_make_existing_key:
  assumes "paths tree (path_str (path_parent (get_drs_up u cp))) = Some entry"
  shows "(fst (record_make u source cp dup lv tree) = None) = (lv = latest entry)"
    and "fst (record_make u source cp dup lv tree) = None
         \<or> fst (record_make u source cp dup lv tree) = Some AssertionError"
    and "paths (snd (record_make u source cp dup lv tree)) (path_str (path_parent (get_drs_up u cp)))
           = Some (entry\<lparr>files := files entry @ [\<lparr>r_src = source, r_dst = cp, r_is_duplicate = dup\<rparr>]\<rparr>)"
  using assms by (simp_all add: record_make_def Let_def)

lemma record_make_new_key:
  assumes "paths tree (path_str (path_parent (get_drs_up u cp))) = None"
  shows "fst (record_make u source cp dup lv tree) = None"
    and "paths (snd (record_make u source cp dup lv tree)) (path_str (path_parent (get_drs_up u cp)))
           = Some \<lparr>files = [\<lparr>r_src = source, r_dst = cp, r_is_duplicate = dup\<rparr>], latest = lv\<rparr>"
  using assms by (simp_all add: record_make_def Let_def)

text \<open>
  Claim C10. All the records under one key of \<^verbatim>\<open>tree.paths\<close> are to come from files that saw
  the same latest version, which the assertion on line 264 is there to check. The record
  is appended on line 263, before the assertion is evaluated
  (\<open>record_make_existing_key\<close>), so a file that disagrees is answered by \<^verbatim>\<open>None\<close> and
  yet stays recorded. Here \<^verbatim>\<open>b.nc\<close> is new to the dataset (latest version \<^verbatim>\<open>Initial\<close>) and
  \<^verbatim>\<open>a.nc\<close> exists in the latest version \<^verbatim>\<open>v20200103\<close>: the call for \<^verbatim>\<open>b.nc\<close> succeeds,
  the call for \<^verbatim>\<open>a.nc\<close> fails its assertion, and afterwards the key holds the records of
  both files under the latest version \<^verbatim>\<open>Initial\<close>, and the tree the leaves of both.
\<close>

theorem C10_record_kept_after_failed_assertion:
  "fst (Process_call (ex_utils ''v20200103'' (Some ''t1'') (Some ''t2'') 10 ''bbb'')
          (ex_os\<lparr>path_exists := \<lambda>p. p = ''/drs/CMIP6/tas/v20200103/a.nc''\<rparr>) ex_ctx ex_source_b ex_shared)
     = Inr (Some True)
   \<and> map_option latest
       (paths (tree_sh (snd (Process_call (ex_utils ''v20200103'' (Some ''t1'') (Some ''t2'') 10 ''bbb'')
          (ex_os\<lparr>path_exists := \<lambda>p. p = ''/drs/CMIP6/tas/v20200103/a.nc''\<rparr>) ex_ctx ex_source_b ex_shared)))
        ''/drs/CMIP6/tas'') = Some ''Initial''
   \<and> detect (ex_utils ''v20200103'' (Some ''t1'') (Some ''t2'') 10 ''bbb'')
          (ex_os\<lparr>path_exists := \<lambda>p. p = ''/drs/CMIP6/tas/v20200103/a.nc''\<rparr>) ex_ctx
          (\<lambda>k. if k = ''tracking_id'' then Some ''t1'' else None) ex_current (Some (ex_latest ''v20200103''))
     = Inr (False, ''v20200103'')
   \<and> fst (Process_body (ex_utils ''v20200103'' (Some ''t1'') (Some ''t2'') 10 ''bbb'')
          (ex_os\<lparr>path_exists := \<lambda>p. p = ''/drs/CMIP6/tas/v20200103/a.nc''\<rparr>) ex_ctx ex_source
          (tree_sh (snd (Process_call (ex_utils ''v20200103'' (Some ''t1'') (Some ''t2'') 10 ''bbb'')
             (ex_os\<lparr>path_exists := \<lambda>p. p = ''/drs/CMIP6/tas/v20200103/a.nc''\<rparr>) ex_ctx ex_source_b ex_shared))))
     = Inl AssertionError
   \<and> fst (Process_call (ex_utils ''v20200103'' (Some ''t1'') (Some ''t2'') 10 ''bbb'')
          (ex_os\<lparr>path_exists := \<lambda>p. p = ''/drs/CMIP6/tas/v20200103/a.nc''\<rparr>) ex_ctx ex_source
          (snd (Process_call (ex_utils ''v20200103'' (Some ''t1'') (Some ''t2'') 10 ''bbb'')
             (ex_os\<lparr>path_exists := \<lambda>p. p = ''/drs/CMIP6/tas/v20200103/a.nc''\<rparr>) ex_ctx ex_source_b ex_shared)))
     = Inr None
   \<and> map_option (\<lambda>entry. (map r_src (files entry), latest entry))
       (paths (tree_sh (snd (Process_call (ex_utils ''v20200103'' (Some ''t1'') (Some ''t2'') 10 ''bbb'')
          (ex_os\<lparr>path_exists := \<lambda>p. p = ''/drs/CMIP6/tas/v20200103/a.nc''\<rparr>) ex_ctx ex_source
          (snd (Process_call (ex_utils ''v20200103'' (Some ''t1'') (Some ''t2'') 10 ''bbb'')
             (ex_os\<lparr>path_exists := \<lambda>p. p = ''/drs/CMIP6/tas/v20200103/a.nc''\<rparr>) ex_ctx ex_source_b ex_shared)))))
        ''/drs/CMIP6/tas'')
     = Some ([ex_source_b, ex_source], ''Initial'')
   \<and> length (leaves (tree_sh (snd (Process_call (ex_utils ''v20200103'' (Some ''t1'') (Some ''t2'') 10 ''bbb'')
          (ex_os\<lparr>path_exists := \<lambda>p. p = ''/drs/CMIP6/tas/v20200103/a.nc''\<rparr>) ex_ctx ex_source
          (snd (Process_call (ex_utils ''v20200103'' (Some ''t1'') (Some ''t2'') 10 ''bbb'')
             (ex_os\<lparr>path_exists := \<lambda>p. p = ''/drs/CMIP6/tas/v20200103/a.nc''\<rparr>) ex_ctx ex_source_b ex_shared))))))
     = 6"
  by code_simp

subsection \<open>The worker boundary\<close>

text \<open>
  Claim C6. An exception raised while a file is processed leaves the worker only if it is
  \<^verbatim>\<open>KeyboardInterrupt\<close>; any other one makes the worker return \<^verbatim>\<open>None\<close>. This holds for
  \<^verbatim>\<open>process\<close> of \<^verbatim>\<open>main.py\<close> and for \<^verbatim>\<open>Process.__call__\<close> of \<^verbatim>\<open>make.py\<close>, which counts
  an error in both cases.
\<close>

theorem C6_worker_boundary:
  "(fst (process_body h w cctx p tree) = Inl KeyboardInterrupt
      \<longrightarrow> fst (process h w cctx p tree) = Inl KeyboardInterrupt)
   \<and> (fst (process_body h w cctx p tree) = Inl e \<and> e \<noteq> KeyboardInterrupt
      \<longrightarrow> fst (process h w cctx p tree) = Inr None)
   \<and> (fst (process h w cctx p tree) = Inl e
      \<longrightarrow> e = KeyboardInterrupt \<and> fst (process_body h w cctx p tree) = Inl KeyboardInterrupt)
   \<and> (fst (Process_body u w ctx source (tree_sh sh)) = Inl KeyboardInterrupt
      \<longrightarrow> fst (Process_call u w ctx source sh) = Inl KeyboardInterrupt
          \<and> errors (snd (Process_call u w ctx source sh)) = errors sh + 1)
   \<and> (fst (Process_body u w ctx source (tree_sh sh)) = Inl e \<and> e \<noteq> KeyboardInterrupt
      \<longrightarrow> fst (Process_call u w ctx source sh) = Inr None
          \<and> errors (snd (Process_call u w ctx source sh)) = errors sh + 1)
   \<and> (fst (Process_call u w ctx source sh) = Inl e
      \<longrightarrow> e = KeyboardInterrupt \<and> fst (Process_body u w ctx source (tree_sh sh)) = Inl KeyboardInterrupt)"
  by (auto simp: process_def Process_call_def split: prod.splits sum.splits exn.splits)

theorem C6_worker_boundary_witness:
  "fst (process ((ex_handlers None ''bbb'')\<lparr>File_new := \<lambda>p. Inl OSError\<rparr>) ex_os ex_ctx ''/in/a.nc'' ex_tree)
     = Inr None
   \<and> fst (process ((ex_handlers None ''bbb'')\<lparr>File_new := \<lambda>p. Inl KeyboardInterrupt\<rparr>) ex_os ex_ctx
            ''/in/a.nc'' ex_tree)
     = Inl KeyboardInterrupt
   \<and> fst (Process_call ((ex_utils ''v20200103'' (Some ''t1'') (Some ''t2'') 10 ''bbb'')
                           \<lparr>get_ncattrs := \<lambda>p. Inl (OtherException ''not a netCDF file'')\<rparr>)
            ex_os ex_ctx ex_source ex_shared)
     = Inr None
   \<and> errors (snd (Process_call ((ex_utils ''v20200103'' (Some ''t1'') (Some ''t2'') 10 ''bbb'')
                           \<lparr>get_ncattrs := \<lambda>p. Inl (OtherException ''not a netCDF file'')\<rparr>)
            ex_os ex_ctx ex_source ex_shared)) = 1
   \<and> fst (Process_call ((ex_utils ''v20200103'' (Some ''t1'') (Some ''t2'') 10 ''bbb'')
                           \<lparr>get_ncattrs := \<lambda>p. Inl KeyboardInterrupt\<rparr>)
            ex_os ex_ctx ex_source ex_shared)
     = Inl KeyboardInterrupt"
proof -
  let ?h1 = "(ex_handlers None ''bbb'')\<lparr>File_new := \<lambda>p. Inl OSError\<rparr>"
  let ?h2 = "(ex_handlers None ''bbb'')\<lparr>File_new := \<lambda>p. Inl KeyboardInterrupt\<rparr>"
  let ?u1 = "(ex_utils ''v20200103'' (Some ''t1'') (Some ''t2'') 10 ''bbb'')
               \<lparr>get_ncattrs := \<lambda>p. Inl (OtherException ''not a netCDF file'')\<rparr>"
  let ?u2 = "(ex_utils ''v20200103'' (Some ''t1'') (Some ''t2'') 10 ''bbb'')
               \<lparr>get_ncattrs := \<lambda>p. Inl KeyboardInterrupt\<rparr>"
  have b1: "fst (process_body ?h1 ex_os ex_ctx ''/in/a.nc'' ex_tree) = Inl OSError"
    by (simp add: process_body_def)
  have b2: "fst (process_body ?h2 ex_os ex_ctx ''/in/a.nc'' ex_tree) = Inl KeyboardInterrupt"
    by (simp add: process_body_def)
  have b3: "fst (Process_body ?u1 ex_os ex_ctx ex_source (tree_sh ex_shared))
              = Inl (OtherException ''not a netCDF file'')"
    by code_simp
  have b4: "fst (Process_body ?u2 ex_os ex_ctx ex_source (tree_sh ex_shared)) = Inl KeyboardInterrupt"
    by code_simp
  have e: "errors ex_shared = 0" by (simp add: ex_shared_def)
  from C6_worker_boundary[where h = ?h1 and w = ex_os and cctx = ex_ctx and p = "''/in/a.nc''"
        and tree = ex_tree and e = OSError] b1
  have w1: "fst (process ?h1 ex_os ex_ctx ''/in/a.nc'' ex_tree) = Inr None" by simp
  from C6_worker_boundary[where h = ?h2 and w = ex_os and cctx = ex_ctx and p = "''/in/a.nc''"
        and tree = ex_tree] b2
  have w2: "fst (process ?h2 ex_os ex_ctx ''/in/a.nc'' ex_tree) = Inl KeyboardInterrupt" by simp
  from C6_worker_boundary[where u = ?u1 and w = ex_os and ctx = ex_ctx and source = ex_source
        and sh = ex_shared and e = "OtherException ''not a netCDF file''"] b3 e
  have w3: "fst (Process_call ?u1 ex_os ex_ctx ex_source ex_shared) = Inr None
            \<and> errors (snd (Process_call ?u1 ex_os ex_ctx ex_source ex_shared)) = 1" by simp
  from C6_worker_boundary[where u = ?u2 and w = ex_os and ctx = ex_ctx and source = ex_source
        and sh = ex_shared] b4
  have w4: "fst (Process_call ?u2 ex_os ex_ctx ex_source ex_shared) = Inl KeyboardInterrupt" by simp
  from w1 w2 w3 w4 show ?thesis by simp
qed

subsection \<open>The duplicate decision of \<^verbatim>\<open>make.py\<close>\<close>

lemma detect_absent:
  "detect u w ctx attrs cp None = Inr (False, ''Initial'')"
  "\<not> path_exists w (path_str lp) \<Longrightarrow> detect u w ctx attrs cp (Some lp) = Inr (False, ''Initial'')"
  by (simp_all add: detect_def)

lemma detect_present:
  assumes "path_exists w (path_str lp)" and "\<not> get_version u lp < get_version u cp"
    and "get_ncattrs u lp = Inr lattrs"
  shows "detect u w ctx attrs cp (Some lp) =
     (if get_tracking_id u attrs = get_tracking_id u lattrs
      then
        (case st_size u cp of
           Inl e \<Rightarrow> Inl e
         | Inr current_size \<Rightarrow>
             (case st_size u lp of
                Inl e \<Rightarrow> Inl e
              | Inr latest_size \<Rightarrow>
                  if current_size = latest_size \<and> \<not> no_checksum ctx
                  then
                    (case get_checksum u cp of
                       Inl e \<Rightarrow> Inl e
                     | Inr current_checksum \<Rightarrow>
                         (case get_checksum u lp of
                            Inl e \<Rightarrow> Inl e
                          | Inr latest_checksum \<Rightarrow>
                              if current_checksum = latest_checksum
                              then Inr (True, get_version u lp)
                              else if truthy (get_tracking_id u attrs) \<and> truthy (get_tracking_id u lattrs)
                              then Inl (UnchangedTrackingID (path_str lp) (get_tracking_id u lattrs)
                                          (path_str cp) (get_tracking_id u attrs))
                              else Inr (False, get_version u lp)))
                  else if truthy (get_tracking_id u attrs) \<and> truthy (get_tracking_id u lattrs)
                  then Inl (UnchangedTrackingID (path_str lp) (get_tracking_id u lattrs)
                              (path_str cp) (get_tracking_id u attrs))
                  else Inr (False, get_version u lp)))
      else Inr (False, get_version u lp))"
  using assms by (simp add: detect_def Let_def)

text \<open>
  The decision of \<^verbatim>\<open>Process.__call__\<close> once the version test of line 152 has let the file
  pass and the attributes of the latest file have been read.
\<close>

lemma detect_table_after_version_test:
  "detect u w ctx attrs cp None = Inr (False, ''Initial'')
   \<and> (\<not> path_exists w (path_str lp) \<longrightarrow> detect u w ctx attrs cp (Some lp) = Inr (False, ''Initial''))
   \<and> (path_exists w (path_str lp) \<and> \<not> get_version u lp < get_version u cp
        \<and> get_ncattrs u lp = Inr lattrs
      \<longrightarrow>
        (get_tracking_id u attrs \<noteq> get_tracking_id u lattrs
           \<longrightarrow> detect u w ctx attrs cp (Some lp) = Inr (False, get_version u lp))
        \<and> (get_tracking_id u attrs = get_tracking_id u lattrs
             \<and> st_size u cp = Inr n \<and> st_size u lp = Inr n \<and> \<not> no_checksum ctx
             \<and> get_checksum u cp = Inr c \<and> get_checksum u lp = Inr c
           \<longrightarrow> detect u w ctx attrs cp (Some lp) = Inr (True, get_version u lp))
        \<and> (get_tracking_id u attrs = get_tracking_id u lattrs \<and> truthy (get_tracking_id u attrs)
             \<and> st_size u cp = Inr n \<and> st_size u lp = Inr n \<and> \<not> no_checksum ctx
             \<and> get_checksum u cp = Inr c \<and> get_checksum u lp = Inr c' \<and> c \<noteq> c'
           \<longrightarrow> detect u w ctx attrs cp (Some lp)
                 = Inl (UnchangedTrackingID (path_str lp) (get_tracking_id u lattrs)
                          (path_str cp) (get_tracking_id u attrs))))"
proof (intro conjI impI; (elim conjE)?)
  show "detect u w ctx attrs cp None = Inr (False, ''Initial'')" by (rule detect_absent)
  show "detect u w ctx attrs cp (Some lp) = Inr (False, ''Initial'')" if "\<not> path_exists w (path_str lp)"
    using that by (rule detect_absent)
next
  assume a: "path_exists w (path_str lp)" "\<not> get_version u lp < get_version u cp"
    "get_ncattrs u lp = Inr lattrs"
  note d = detect_present[OF a]
  {
    assume "get_tracking_id u attrs \<noteq> get_tracking_id u lattrs"
    then show "detect u w ctx attrs cp (Some lp) = Inr (False, get_version u lp)"
      by (simp add: d)
  }
  {
    assume "get_tracking_id u attrs = get_tracking_id u lattrs"
      "st_size u cp = Inr n" "st_size u lp = Inr n" "\<not> no_checksum ctx"
      "get_checksum u cp = Inr c" "get_checksum u lp = Inr c"
    then show "detect u w ctx attrs cp (Some lp) = Inr (True, get_version u lp)"
      by (simp add: d)
  }
  {
    assume "get_tracking_id u attrs = get_tracking_id u lattrs" "truthy (get_tracking_id u attrs)"
      "st_size u cp = Inr n" "st_size u lp = Inr n" "\<not> no_checksum ctx"
      "get_checksum u cp = Inr c" "get_checksum u lp = Inr c'" "c \<noteq> c'"
    then show "detect u w ctx attrs cp (Some lp)
                 = Inl (UnchangedTrackingID (path_str lp) (get_tracking_id u lattrs)
                          (path_str cp) (get_tracking_id u attrs))"
      by (simp add: d)
  }
qed

text \<open>
  Claim C2. The file of the same name in the latest version decides: absent, not a
  duplicate; present with the same tracking identifier, size and checksum, a duplicate;
  present with the same tracking identifier and size and another checksum,
  \<^verbatim>\<open>UnchangedTrackingID\<close>; present with another tracking identifier, not a duplicate.
  \<^verbatim>\<open>Process.__call__\<close> of \<^verbatim>\<open>make.py\<close> does not reach the rows with the same tracking
  identifier. Here the latest \<^verbatim>\<open>a.nc\<close> has the tracking identifier and the size of the
  incoming \<^verbatim>\<open>a.nc\<close>. Upgrading the latest version \<^verbatim>\<open>v20200101\<close> to \<^verbatim>\<open>v20200102\<close> ends in
  \<^verbatim>\<open>OlderUpgrade\<close> of line 153, with the same checksum and with another one. When the
  version test lets the file pass (latest version \<^verbatim>\<open>v20200103\<close>), line 164 takes the size
  of \<^verbatim>\<open>current_path\<close>, the destination in the tree and not the incoming file, and the
  call ends in the error of that \<^verbatim>\<open>stat\<close> when the destination is not on disk; and
  when it is on disk with the size and the checksum of the latest file, and checksums are
  disabled, line 181 raises \<^verbatim>\<open>UnchangedTrackingID\<close> although the sizes are equal.
\<close>

theorem C2_same_tracking_id_rows_not_reached:
  "path_exists ex_os (path_str (ex_latest ''v20200101''))
   \<and> get_tracking_id (ex_utils ''v20200101'' (Some ''t1'') (Some ''t1'') 10 ''aaa'')
        (\<lambda>k. if k = ''tracking_id'' then Some ''t1'' else None) = Some ''t1''
   \<and> (case get_ncattrs (ex_utils ''v20200101'' (Some ''t1'') (Some ''t1'') 10 ''aaa'') (ex_latest ''v20200101'') of
         Inl e \<Rightarrow> None
       | Inr lattrs \<Rightarrow> get_tracking_id (ex_utils ''v20200101'' (Some ''t1'') (Some ''t1'') 10 ''aaa'') lattrs)
       = Some ''t1''
   \<and> detect (ex_utils ''v20200101'' (Some ''t1'') (Some ''t1'') 10 ''aaa'') ex_os ex_ctx
        (\<lambda>k. if k = ''tracking_id'' then Some ''t1'' else None) ex_current (Some (ex_latest ''v20200101''))
       = Inl (OlderUpgrade ''v20200102'' ''v20200101'')
   \<and> fst (Process_call (ex_utils ''v20200101'' (Some ''t1'') (Some ''t1'') 10 ''aaa'') ex_os ex_ctx
             ex_source ex_shared) = Inr None
   \<and> leaves (tree_sh (snd (Process_call (ex_utils ''v20200101'' (Some ''t1'') (Some ''t1'') 10 ''aaa'') ex_os
             ex_ctx ex_source ex_shared))) = []
   \<and> duplicates (tree_sh (snd (Process_call (ex_utils ''v20200101'' (Some ''t1'') (Some ''t1'') 10 ''aaa'') ex_os
             ex_ctx ex_source ex_shared))) = []
   \<and> detect (ex_utils ''v20200101'' (Some ''t1'') (Some ''t1'') 10 ''bbb'') ex_os ex_ctx
        (\<lambda>k. if k = ''tracking_id'' then Some ''t1'' else None) ex_current (Some (ex_latest ''v20200101''))
       = Inl (OlderUpgrade ''v20200102'' ''v20200101'')
   \<and> detect ((ex_utils ''v20200103'' (Some ''t1'') (Some ''t1'') 10 ''aaa'')
                 \<lparr>st_size := \<lambda>p. if p = ex_current then Inl OSError else Inr 10\<rparr>) ex_os ex_ctx
        (\<lambda>k. if k = ''tracking_id'' then Some ''t1'' else None) ex_current (Some (ex_latest ''v20200103''))
       = Inl OSError
   \<and> fst (Process_call ((ex_utils ''v20200103'' (Some ''t1'') (Some ''t1'') 10 ''aaa'')
                 \<lparr>st_size := \<lambda>p. if p = ex_current then Inl OSError else Inr 10\<rparr>) ex_os ex_ctx
             ex_source ex_shared) = Inr None
   \<and> st_size (ex_utils ''v20200103'' (Some ''t1'') (Some ''t1'') 10 ''aaa'') ex_current = Inr 10
   \<and> st_size (ex_utils ''v20200103'' (Some ''t1'') (Some ''t1'') 10 ''aaa'') (ex_latest ''v20200103'') = Inr 10
   \<and> get_checksum (ex_utils ''v20200103'' (Some ''t1'') (Some ''t1'') 10 ''aaa'') ex_current = Inr ''aaa''
   \<and> get_checksum (ex_utils ''v20200103'' (Some ''t1'') (Some ''t1'') 10 ''aaa'') (ex_latest ''v20200103'')
       = Inr ''aaa''
   \<and> detect (ex_utils ''v20200103'' (Some ''t1'') (Some ''t1'') 10 ''aaa'') ex_os (ex_ctx\<lparr>no_checksum := True\<rparr>)
        (\<lambda>k. if k = ''tracking_id'' then Some ''t1'' else None) ex_current (Some (ex_latest ''v20200103''))
       = Inl (UnchangedTrackingID ''/drs/CMIP6/tas/v20200103/a.nc'' (Some ''t1'')
                ''/drs/CMIP6/tas/v20200102/a.nc'' (Some ''t1''))
   \<and> fst (Process_call (ex_utils ''v20200103'' (Some ''t1'') (Some ''t1'') 10 ''aaa'') ex_os
             (ex_ctx\<lparr>no_checksum := True\<rparr>) ex_source ex_shared) = Inr None"
  by code_simp

subsection \<open>The duplicate decision without checksums\<close>

lemma detect_ignores_checksum:
  assumes "no_checksum ctx"
  shows "detect (u\<lparr>get_checksum := g\<rparr>) w ctx attrs cp lpo = detect u w ctx attrs cp lpo"
  using assms by (simp add: detect_def Let_def split: option.splits sum.splits)

lemma detect_no_checksum_not_duplicate:
  assumes "no_checksum ctx"
  shows "detect u w ctx attrs cp lpo \<noteq> Inr (True, v)"
  using assms by (auto simp: detect_def Let_def split: option.splits sum.splits if_splits)

text \<open>
  Claim C9. With \<^verbatim>\<open>no_checksum\<close>, a file of the same size as the file of the same name in
  the latest version is to be handled as a file that is not a duplicate, without any
  checksum. \<^verbatim>\<open>Process.__call__\<close> of \<^verbatim>\<open>make.py\<close> consults no checksum then and never answers
  that the file is a duplicate (\<open>detect_ignores_checksum\<close>,
  \<open>detect_no_checksum_not_duplicate\<close>), but a file of the same size with the tracking
  identifier of the latest file falls into the branch of line 180, written for different
  sizes, and is refused with \<^verbatim>\<open>UnchangedTrackingID\<close>: the call answers \<^verbatim>\<open>None\<close> and queues
  no leaf. With another tracking identifier and the latest version \<^verbatim>\<open>v20200101\<close>, the
  call ends in \<^verbatim>\<open>OlderUpgrade\<close> of line 153. \<^verbatim>\<open>process\<close> of \<^verbatim>\<open>main.py\<close> compares the
  checksums whatever \<^verbatim>\<open>no_checksum\<close> says and queues the leaf of a duplicate.
\<close>

theorem C9_equal_size_refused:
  "no_checksum (ex_ctx\<lparr>no_checksum := True\<rparr>)
   \<and> st_size (ex_utils ''v20200103'' (Some ''t1'') (Some ''t1'') 10 ''aaa'') ex_current = Inr 10
   \<and> st_size (ex_utils ''v20200103'' (Some ''t1'') (Some ''t1'') 10 ''aaa'') (ex_latest ''v20200103'') = Inr 10
   \<and> detect (ex_utils ''v20200103'' (Some ''t1'') (Some ''t1'') 10 ''aaa'') ex_os (ex_ctx\<lparr>no_checksum := True\<rparr>)
        (\<lambda>k. if k = ''tracking_id'' then Some ''t1'' else None) ex_current (Some (ex_latest ''v20200103''))
       = Inl (UnchangedTrackingID ''/drs/CMIP6/tas/v20200103/a.nc'' (Some ''t1'')
                ''/drs/CMIP6/tas/v20200102/a.nc'' (Some ''t1''))
   \<and> fst (Process_call (ex_utils ''v20200103'' (Some ''t1'') (Some ''t1'') 10 ''aaa'') ex_os
             (ex_ctx\<lparr>no_checksum := True\<rparr>) ex_source ex_shared) = Inr None
   \<and> leaves (tree_sh (snd (Process_call (ex_utils ''v20200103'' (Some ''t1'') (Some ''t1'') 10 ''aaa'') ex_os
             (ex_ctx\<lparr>no_checksum := True\<rparr>) ex_source ex_shared))) = []
   \<and> fst (Process_call (ex_utils ''v20200101'' (Some ''t1'') (Some ''t2'') 10 ''aaa'') ex_os
             (ex_ctx\<lparr>no_checksum := True\<rparr>) ex_source ex_shared) = Inr None
   \<and> fst (Process_body (ex_utils ''v20200101'' (Some ''t1'') (Some ''t2'') 10 ''aaa'') ex_os
             (ex_ctx\<lparr>no_checksum := True\<rparr>) ex_source ex_tree)
       = Inl (OlderUpgrade ''v20200102'' ''v20200101'')
   \<and> fst (check_latest (ex_handlers (Some ''v20200101'') ''aaa'') ex_os (ex_ctx\<lparr>no_checksum := True\<rparr>)
             ex_file (ex_fph (Some ''v20200101'')) ex_tree) = Inr True
   \<and> map label (leaves (snd (process (ex_handlers (Some ''v20200101'') ''aaa'') ex_os
             (ex_ctx\<lparr>no_checksum := True\<rparr>) ''/in/a.nc'' ex_tree)))
       = [''a.nc --> ../files/d20200101/a.nc'']"
  by code_simp

subsection \<open>The driver \<^verbatim>\<open>run\<close>\<close>

lemma scan_sources_result:
  "scan_sources h w cctx xs tree = Inl e \<Longrightarrow> e = KeyboardInterrupt"
  "scan_sources h w cctx xs tree = Inr (rs, tree') \<Longrightarrow> length rs = length xs"
proof (induction xs arbitrary: tree rs e)
  case Nil
  { case 1 then show ?case by simp }
  { case 2 then show ?case by auto }
next
  case (Cons x xs)
  { case 1
    obtain r t1 where p: "process h w cctx x tree = (r, t1)" by fastforce
    show ?case
    proof (cases r)
      case (Inl e')
      with p have "fst (process h w cctx x tree) = Inl e'" by simp
      then have "e' = KeyboardInterrupt"
        by (auto simp: process_fst split: sum.splits exn.splits)
      with Inl p "1" show ?thesis by simp
    next
      case (Inr b)
      with p "1" have "scan_sources h w cctx xs t1 = Inl e" by (auto split: sum.splits)
      then show ?thesis by (rule Cons.IH(1))
    qed
  }
  { case 2
    then obtain r t1 rs0 where "process h w cctx x tree = (Inr r, t1)"
      "scan_sources h w cctx xs t1 = Inr (rs0, tree')" "rs = r # rs0"
      by (auto split: prod.splits sum.splits)
    with Cons.IH(2) show ?case by auto
  }
qed

lemma restore_stored:
  assumes "fs (TREE_FILE user) = Some [a, PTree t, PLog l, PResults rs]"
  shows "restore user ctx fs = Inr (t\<lparr>commands_file := commands_file_ctx ctx\<rparr>, ctx\<lparr>scan_err_log := l\<rparr>, rs)"
  using assms by (simp add: restore_def load_def reader_next_def)

lemma run_stores:
  assumes "run h w ev user ctx tinit fs = Inr st"
  shows "files_out st = fs(TREE_FILE user \<mapsto>
           [PArgs (controlled_args (ctx_out st)), PTree (tree_out st),
            PLog (scan_err_log (ctx_out st)), PResults (results_out st)])"
    and "scan_files (ctx_out st) = int (length (results_out st))"
    and "scan_errors (ctx_out st) = int (count_list (results_out st) None)"
    and "calls st = (if ev (results_out st)
                     then (if \<not> no_checksum ctx then [check_uniqueness (checksum_type ctx)] else [])
                          @ [get_display_lengths, tree_action (action ctx)]
                     else [])"
  using assms
  by (auto simp: run_def Let_def store_def restore_def load_def reader_next_def
           split: sum.splits prod.splits if_splits option.splits list.splits pickled.splits)


lemma run_scan_returns:
  assumes "scan ctx"
  shows "(\<exists>st. run h w ev user ctx tinit fs = Inr st \<and> length (results_out st) = length (sources ctx))
         \<or> run h w ev user ctx tinit fs = Inl KeyboardInterrupt"
proof (cases "scan_sources h w (ProcessContext.truncate ctx) (sources ctx) tinit")
  case (Inl e)
  then have "e = KeyboardInterrupt" by (rule scan_sources_result(1))
  with Inl assms show ?thesis by (simp add: run_def)
next
  case (Inr x)
  obtain rs t where x: "x = (rs, t)" by (cases x)
  with Inr have "length rs = length (sources ctx)" by (simp add: scan_sources_result(2))
  with Inr x assms show ?thesis by (simp add: run_def Let_def)
qed

text \<open>
  Claim C8. A run that is not cancelled sets the number of scanned files to the length of
  the result list and the number of scan errors to the number of \<^verbatim>\<open>None\<close> in it, writes the
  checkpoint whatever the results are, and calls the methods of the tree (the uniqueness
  check, the display lengths, the action) only if \<^verbatim>\<open>evaluate(results)\<close> holds; a scanning
  run is either cancelled by \<^verbatim>\<open>KeyboardInterrupt\<close> or returns with one result per source.
\<close>

theorem C8_counts_checkpoint_gate:
  "(run h w ev user ctx tinit fs = Inr st \<longrightarrow>
      scan_files (ctx_out st) = int (length (results_out st))
      \<and> scan_errors (ctx_out st) = int (length (filter (\<lambda>r. r = None) (results_out st)))
      \<and> files_out st (TREE_FILE user)
          = Some [PArgs (controlled_args (ctx_out st)), PTree (tree_out st),
                  PLog (scan_err_log (ctx_out st)), PResults (results_out st)]
      \<and> (\<not> ev (results_out st) \<longrightarrow> calls st = [])
      \<and> (ev (results_out st) \<longrightarrow>
           calls st = (if \<not> no_checksum ctx then [check_uniqueness (checksum_type ctx)] else [])
                      @ [get_display_lengths, tree_action (action ctx)]))
   \<and> (scan ctx \<longrightarrow>
        (\<exists>st'. run h w ev user ctx tinit fs = Inr st' \<and> length (results_out st') = length (sources ctx))
        \<or> run h w ev user ctx tinit fs = Inl KeyboardInterrupt)"
proof (intro conjI impI)
  assume r: "run h w ev user ctx tinit fs = Inr st"
  show "scan_files (ctx_out st) = int (length (results_out st))" by (rule run_stores(2)[OF r])
  have "count_list xs None = length (filter (\<lambda>r. r = None) xs)" for xs :: "bool option list"
    by (induction xs) auto
  then show "scan_errors (ctx_out st) = int (length (filter (\<lambda>r. r = None) (results_out st)))"
    using run_stores(3)[OF r] by simp
  show "files_out st (TREE_FILE user)
          = Some [PArgs (controlled_args (ctx_out st)), PTree (tree_out st),
                  PLog (scan_err_log (ctx_out st)), PResults (results_out st)]"
    using run_stores(1)[OF r] by simp
  show "calls st = []" if "\<not> ev (results_out st)" using run_stores(4)[OF r] that by simp
  show "calls st = (if \<not> no_checksum ctx then [check_uniqueness (checksum_type ctx)] else [])
                      @ [get_display_lengths, tree_action (action ctx)]" if "ev (results_out st)"
    using run_stores(4)[OF r] that by simp
next
  assume "scan ctx"
  then show "(\<exists>st'. run h w ev user ctx tinit fs = Inr st' \<and> length (results_out st') = length (sources ctx))
        \<or> run h w ev user ctx tinit fs = Inl KeyboardInterrupt"
    by (rule run_scan_returns)
qed

theorem C8_counts_checkpoint_gate_witness:
  "(case run (ex_handlers (Some ''v20200101'') ''bbb'') ex_os ex_evaluate ''alice'' (ex_pctx True None)
           ex_tree Map.empty of
      Inl e \<Rightarrow> False
    | Inr st \<Rightarrow>
        results_out st = [Some True] \<and> scan_files (ctx_out st) = 1 \<and> scan_errors (ctx_out st) = 0
        \<and> files_out st ''/tmp/DRSTree_alice.pkl''
            = Some [PArgs (controlled_args (ctx_out st)), PTree (tree_out st),
                    PLog (scan_err_log (ctx_out st)), PResults (results_out st)]
        \<and> calls st = [check_uniqueness ''sha256'', get_display_lengths, tree_action ''upgrade''])
   \<and> (case run (ex_handlers (Some ''v20200102'') ''bbb'') ex_os ex_evaluate ''alice'' (ex_pctx True None)
           ex_tree Map.empty of
      Inl e \<Rightarrow> False
    | Inr st \<Rightarrow>
        results_out st = [None] \<and> scan_files (ctx_out st) = 1 \<and> scan_errors (ctx_out st) = 1
        \<and> files_out st ''/tmp/DRSTree_alice.pkl''
            = Some [PArgs (controlled_args (ctx_out st)), PTree (tree_out st),
                    PLog (scan_err_log (ctx_out st)), PResults (results_out st)]
        \<and> calls st = [])"
proof -
  let ?run = "\<lambda>v. run (ex_handlers (Some v) ''bbb'') ex_os ex_evaluate ''alice'' (ex_pctx True None)
                    ex_tree Map.empty"
  have sc: "scan (ex_pctx True None)" "\<not> no_checksum (ex_pctx True None)"
    "checksum_type (ex_pctx True None) = ''sha256''" "action (ex_pctx True None) = ''upgrade''"
    by (simp_all add: ex_pctx_def)
  have tf: "TREE_FILE ''alice'' = ''/tmp/DRSTree_alice.pkl''" by (simp add: TREE_FILE_def)
  have ev: "ex_evaluate [Some True]" "\<not> ex_evaluate [None]" by (simp_all add: ex_evaluate_def)
  have "\<not> isl (?run ''v20200101'')" "\<not> isl (?run ''v20200102'')"
    by code_simp+
  then have n1: "?run ''v20200101'' \<noteq> Inl KeyboardInterrupt" "?run ''v20200102'' \<noteq> Inl KeyboardInterrupt"
    by auto
  have r1: "map_sum id results_out (?run ''v20200101'') = Inr [Some True]"
    "map_sum id results_out (?run ''v20200102'') = Inr [None]"
    by code_simp+
  note t1 = C8_counts_checkpoint_gate[where h = "ex_handlers (Some ''v20200101'') ''bbb''" and w = ex_os
      and ev = ex_evaluate and user = "''alice''" and ctx = "ex_pctx True None" and tinit = ex_tree
      and fs = Map.empty]
  note t2 = C8_counts_checkpoint_gate[where h = "ex_handlers (Some ''v20200102'') ''bbb''" and w = ex_os
      and ev = ex_evaluate and user = "''alice''" and ctx = "ex_pctx True None" and tinit = ex_tree
      and fs = Map.empty]
  from t1 sc(1) n1(1) obtain st1 where s1: "?run ''v20200101'' = Inr st1" by blast
  from t2 sc(1) n1(2) obtain st2 where s2: "?run ''v20200102'' = Inr st2" by blast
  from r1 s1 s2 have res: "results_out st1 = [Some True]" "results_out st2 = [None]" by simp_all
  have w1: "results_out st1 = [Some True] \<and> scan_files (ctx_out st1) = 1 \<and> scan_errors (ctx_out st1) = 0
        \<and> files_out st1 ''/tmp/DRSTree_alice.pkl''
            = Some [PArgs (controlled_args (ctx_out st1)), PTree (tree_out st1),
                    PLog (scan_err_log (ctx_out st1)), PResults (results_out st1)]
        \<and> calls st1 = [check_uniqueness ''sha256'', get_display_lengths, tree_action ''upgrade'']"
    using t1[where st = st1] s1 res(1) sc ev tf by simp
  have w2: "results_out st2 = [None] \<and> scan_files (ctx_out st2) = 1 \<and> scan_errors (ctx_out st2) = 1
        \<and> files_out st2 ''/tmp/DRSTree_alice.pkl''
            = Some [PArgs (controlled_args (ctx_out st2)), PTree (tree_out st2),
                    PLog (scan_err_log (ctx_out st2)), PResults (results_out st2)]
        \<and> calls st2 = []"
    using t2[where st = st2] s2 res(2) sc ev tf by simp
  from w1 w2 s1 s2 show ?thesis by simp
qed

lemma scan_sources_tree:
  "scan_sources h w cctx xs tree = Inr (rs, tree')
   \<Longrightarrow> tree' = foldl (\<lambda>t x. snd (process h w cctx x t)) tree xs"
proof (induction xs arbitrary: tree rs)
  case Nil
  then show ?case by simp
next
  case (Cons x xs)
  then obtain r t1 rs0 where p: "process h w cctx x tree = (Inr r, t1)"
    and s: "scan_sources h w cctx xs t1 = Inr (rs0, tree')"
    by (auto split: prod.splits sum.splits)
  from Cons.IH[OF s] p show ?case by simp
qed

lemma scan_sources_results:
  "scan_sources h w cctx xs tree = Inr (rs, tree') \<Longrightarrow> i < length xs
   \<Longrightarrow> fst (process h w cctx (xs ! i) (foldl (\<lambda>t x. snd (process h w cctx x t)) tree (take i xs)))
       = Inr (rs ! i)"
proof (induction xs arbitrary: tree rs i)
  case Nil
  then show ?case by simp
next
  case (Cons x xs)
  from Cons.prems(1) obtain r t1 rs0 where p: "process h w cctx x tree = (Inr r, t1)"
    and s: "scan_sources h w cctx xs t1 = Inr (rs0, tree')" and rs: "rs = r # rs0"
    by (auto split: prod.splits sum.splits)
  show ?case
  proof (cases i)
    case 0
    with p rs show ?thesis by simp
  next
    case (Suc j)
    with Cons.prems(2) have "j < length xs" by simp
    from Cons.IH[OF s this] p rs Suc show ?thesis by simp
  qed
qed

lemma run_scans:
  assumes "scan ctx" and "run h w ev user ctx tinit fs = Inr st"
  shows "scan_sources h w (ProcessContext.truncate ctx) (sources ctx) tinit = Inr (results_out st, tree_out st)"
    and "scan_err_log (ctx_out st) = scan_err_log ctx"
    and "getattribute (ctx_out st) = getattribute ctx"
  using assms
  by (auto simp: run_def Let_def split: sum.splits prod.splits)


lemma scan_sources_cancelled:
  "scan_sources h w cctx xs tree = Inl e \<Longrightarrow> \<exists>x t. fst (process h w cctx x t) = Inl KeyboardInterrupt"
proof (induction xs arbitrary: tree)
  case Nil
  then show ?case by simp
next
  case (Cons x xs)
  obtain r t1 where p: "process h w cctx x tree = (r, t1)" by fastforce
  show ?case
  proof (cases r)
    case (Inl e')
    with p have f: "fst (process h w cctx x tree) = Inl e'" by simp
    then have "e' = KeyboardInterrupt"
      by (auto simp: process_fst split: sum.splits exn.splits)
    with f show ?thesis by blast
  next
    case (Inr b)
    with p Cons.prems have "scan_sources h w cctx xs t1 = Inl e" by (auto split: sum.splits)
    then show ?thesis by (rule Cons.IH)
  qed
qed

lemma run_scan_total:
  assumes "scan ctx"
    and "\<forall>x t. fst (process h w (ProcessContext.truncate ctx) x t) \<noteq> Inl KeyboardInterrupt"
  shows "\<exists>st. run h w ev user ctx tinit fs = Inr st"
proof (cases "scan_sources h w (ProcessContext.truncate ctx) (sources ctx) tinit")
  case (Inl e)
  from scan_sources_cancelled[OF this] assms(2) show ?thesis by blast
next
  case (Inr x)
  obtain rs t where "x = (rs, t)" by (cases x)
  with Inr assms(1) show ?thesis by (simp add: run_def Let_def)
qed

text \<open>
  Claim C7. A scan that no \<^verbatim>\<open>KeyboardInterrupt\<close> cancels returns, and a run that returns
  leaves, in the file of the invoking user and in no other file, the sequence of the
  controlled arguments, the tree, the error log and the results, in this order. After a
  scan, that tree is the initial tree taken through \<^verbatim>\<open>process\<close> for each source in turn,
  the results are the answers of these calls, and the arguments and the log are those of
  the invocation. A later run that does not scan, by the same user, reads that file and
  returns; its tree is the stored one with only the commands file replaced by that of the
  new invocation, its error log and results are the stored ones.
\<close>

theorem C7_checkpoint_round_trip:
  "(scan ctx \<and> (\<forall>x t. fst (process h w (ProcessContext.truncate ctx) x t) \<noteq> Inl KeyboardInterrupt)
      \<longrightarrow> (\<exists>st0. run h w ev user ctx tinit fs = Inr st0))
   \<and> (run h w ev user ctx tinit fs = Inr st \<longrightarrow>
        files_out st = fs(TREE_FILE user \<mapsto>
            [PArgs (map (\<lambda>key. (key, getattribute (ctx_out st) key)) CONTROLLED_ARGS),
             PTree (tree_out st), PLog (scan_err_log (ctx_out st)), PResults (results_out st)])
        \<and> TREE_FILE user = ''/tmp/DRSTree_'' @ user @ ''.pkl''
        \<and> (scan ctx \<longrightarrow>
             tree_out st = foldl (\<lambda>t x. snd (process h w (ProcessContext.truncate ctx) x t)) tinit (sources ctx)
             \<and> length (results_out st) = length (sources ctx)
             \<and> (\<forall>i < length (sources ctx).
                   fst (process h w (ProcessContext.truncate ctx) (sources ctx ! i)
                          (foldl (\<lambda>t x. snd (process h w (ProcessContext.truncate ctx) x t)) tinit
                             (take i (sources ctx))))
                     = Inr (results_out st ! i))
             \<and> scan_err_log (ctx_out st) = scan_err_log ctx
             \<and> getattribute (ctx_out st) = getattribute ctx)
        \<and> (\<not> scan ctx' \<longrightarrow>
             (\<exists>st'. run h' w' ev' user ctx' tinit' (files_out st) = Inr st'
                \<and> tree_out st' = (tree_out st)\<lparr>commands_file := commands_file_ctx ctx'\<rparr>
                \<and> scan_err_log (ctx_out st') = scan_err_log (ctx_out st)
                \<and> results_out st' = results_out st)))"
proof (intro conjI impI allI; (elim conjE)?)
  show "\<exists>st0. run h w ev user ctx tinit fs = Inr st0"
    if "scan ctx" "\<forall>x t. fst (process h w (ProcessContext.truncate ctx) x t) \<noteq> Inl KeyboardInterrupt"
    using that by (rule run_scan_total)
next
  assume r: "run h w ev user ctx tinit fs = Inr st"
  note f = run_stores(1)[OF r]
  show "files_out st = fs(TREE_FILE user \<mapsto>
            [PArgs (map (\<lambda>key. (key, getattribute (ctx_out st) key)) CONTROLLED_ARGS),
             PTree (tree_out st), PLog (scan_err_log (ctx_out st)), PResults (results_out st)])"
    using f by (simp add: controlled_args_def)
  show "TREE_FILE user = ''/tmp/DRSTree_'' @ user @ ''.pkl''" by (simp add: TREE_FILE_def)
  {
    assume sc: "scan ctx"
    note s = run_scans[OF sc r]
    show "tree_out st = foldl (\<lambda>t x. snd (process h w (ProcessContext.truncate ctx) x t)) tinit (sources ctx)"
      by (rule scan_sources_tree[OF s(1)])
    show "length (results_out st) = length (sources ctx)"
      by (rule scan_sources_result(2)[OF s(1)])
    show "fst (process h w (ProcessContext.truncate ctx) (sources ctx ! i)
                          (foldl (\<lambda>t x. snd (process h w (ProcessContext.truncate ctx) x t)) tinit
                             (take i (sources ctx))))
                     = Inr (results_out st ! i)" if "i < length (sources ctx)" for i
      using s(1) that by (rule scan_sources_results)
    show "scan_err_log (ctx_out st) = scan_err_log ctx" by (rule s(2))
    show "getattribute (ctx_out st) = getattribute ctx" by (rule s(3))
  }
  {
    assume ns: "\<not> scan ctx'"
    have "files_out st (TREE_FILE user)
            = Some [PArgs (controlled_args (ctx_out st)), PTree (tree_out st),
                    PLog (scan_err_log (ctx_out st)), PResults (results_out st)]"
      using f by simp
    from restore_stored[where fs = "files_out st" and user = user and ctx = ctx', OF this]
    have "restore user ctx' (files_out st)
            = Inr ((tree_out st)\<lparr>commands_file := commands_file_ctx ctx'\<rparr>,
                   ctx'\<lparr>scan_err_log := scan_err_log (ctx_out st)\<rparr>, results_out st)" .
    with ns show "\<exists>st'. run h' w' ev' user ctx' tinit' (files_out st) = Inr st'
               \<and> tree_out st' = (tree_out st)\<lparr>commands_file := commands_file_ctx ctx'\<rparr>
               \<and> scan_err_log (ctx_out st') = scan_err_log (ctx_out st)
               \<and> results_out st' = results_out st"
      by (simp add: run_def Let_def)
  }
qed

lemma py_int_error: "py_int s = Inl e \<Longrightarrow> e = ValueError"
  by (auto simp: py_int_def digits_int_def split: list.splits if_splits sum.splits)

lemma check_latest_error:
  "check_latest h w cctx fh fph tree = (Inl e, t) \<Longrightarrow> e = ValueError \<or> (\<exists>a b. e = OlderUpgrade a b)"
  by (auto simp: check_latest_def Let_def dest: py_int_error split: option.splits sum.splits if_splits)

lemma upgrade_files_error:
  "upgrade_files w cctx fh fph dir names tree = (Some e, t) \<Longrightarrow> \<exists>q. readlink w q = Inl e"
proof (induction names arbitrary: tree)
  case Nil
  then show ?case by simp
next
  case (Cons n names)
  then show ?case by (auto split: if_splits sum.splits)
qed

lemma upgrade_walk_error:
  "upgrade_walk w cctx fh fph ws tree = (Some e, t) \<Longrightarrow> \<exists>q. readlink w q = Inl e"
proof (induction ws arbitrary: tree)
  case Nil
  then show ?case by simp
next
  case (Cons a ws)
  obtain dir names where a: "a = (dir, names)" by (cases a)
  obtain r0 t0 where u: "upgrade_files w cctx fh fph dir names tree = (r0, t0)" by fastforce
  show ?case
  proof (cases r0)
    case None
    with Cons.prems a u have "upgrade_walk w cctx fh fph ws t0 = (Some e, t)" by simp
    then show ?thesis by (rule Cons.IH)
  next
    case (Some e')
    with Cons.prems a u have "e' = e" by simp
    with Some u show ?thesis by (auto dest: upgrade_files_error)
  qed
qed

lemma generate_error:
  "generate w cctx fh fph dup tree = (Some e, t)
   \<Longrightarrow> (\<exists>q. readlink w q = Inl e) \<or> (\<exists>a b. e = DuplicatedFile a b)"
  by (auto simp: generate_def Let_def dest: upgrade_walk_error split: if_splits sum.splits)

lemma process_not_interrupted:
  assumes f: "File_new h p \<noteq> Inl KeyboardInterrupt"
    and l: "\<And>fh. load_attributes h fh \<noteq> Some KeyboardInterrupt"
    and c: "\<And>fh. check_facets h fh \<noteq> Some KeyboardInterrupt"
    and d: "\<And>fh. DRSPath_new h fh \<noteq> Inl KeyboardInterrupt"
    and r: "\<And>q. readlink w q \<noteq> Inl KeyboardInterrupt"
  shows "fst (process h w cctx p tree) \<noteq> Inl KeyboardInterrupt"
proof -
  have g: "e \<noteq> KeyboardInterrupt" if "generate w cctx fh fph dup t = (Some e, t')" for fh fph dup t t' e
    using generate_error[OF that] r by auto
  have k: "e \<noteq> KeyboardInterrupt" if "check_latest h w cctx fh fph t = (Inl e, t')" for fh fph t t' e
    using check_latest_error[OF that] by auto
  have "fst (process_body h w cctx p tree) \<noteq> Inl KeyboardInterrupt"
  proof (cases "File_new h p")
    case (Inl e)
    with f show ?thesis by (auto simp: process_body_def)
  next
    case fh: (Inr fh)
    show ?thesis
    proof (cases "DRSPath_new h fh")
      case (Inl e)
      with fh d[of fh] l[of fh] c[of fh] show ?thesis
        by (auto simp: process_body_def split: option.splits)
    next
      case fph: (Inr fph)
      obtain r1 t1 where cl: "check_latest h w cctx fh fph tree = (r1, t1)" by fastforce
      show ?thesis
      proof (cases r1)
        case (Inl e)
        with cl k have "e \<noteq> KeyboardInterrupt" by blast
        with fh fph cl Inl l[of fh] c[of fh] show ?thesis
          by (auto simp: process_body_def split: option.splits)
      next
        case dup: (Inr dup)
        obtain r2 t2 where ge: "generate w cctx fh fph dup t1 = (r2, t2)" by fastforce
        show ?thesis
        proof (cases r2)
          case None
          with fh fph cl dup ge l[of fh] c[of fh] show ?thesis
            by (auto simp: process_body_def split: option.splits)
        next
          case (Some e)
          with ge g have "e \<noteq> KeyboardInterrupt" by blast
          with fh fph cl dup ge Some l[of fh] c[of fh] show ?thesis
            by (auto simp: process_body_def split: option.splits)
        qed
      qed
    qed
  qed
  then show ?thesis
    by (auto simp: process_fst split: sum.splits exn.splits)
qed

theorem C7_checkpoint_round_trip_witness:
  "(case run (ex_handlers (Some ''v20200101'') ''bbb'') ex_os ex_evaluate ''alice'' (ex_pctx True None)
           ex_tree Map.empty of
      Inl e \<Rightarrow> False
    | Inr st \<Rightarrow>
        map label (leaves (tree_out st))
          = [''a.nc --> ../files/d20200102/a.nc'', ''latest --> v20200102'', ''a.nc'']
        \<and> results_out st = [Some True]
        \<and> files_out st ''/tmp/DRSTree_alice.pkl''
            = Some [PArgs (map (\<lambda>key. (key, getattribute (ex_pctx True None) key)) CONTROLLED_ARGS),
                    PTree (tree_out st), PLog ''/tmp/scan.err'', PResults [Some True]]
        \<and> (case run (ex_handlers None ''ccc'') ex_os ex_evaluate ''alice'' (ex_pctx False (Some ''cmds.txt''))
                  ex_tree (files_out st) of
             Inl e \<Rightarrow> False
           | Inr st' \<Rightarrow>
               tree_out st' = (tree_out st)\<lparr>commands_file := Some ''cmds.txt''\<rparr>
               \<and> map label (leaves (tree_out st'))
                   = [''a.nc --> ../files/d20200102/a.nc'', ''latest --> v20200102'', ''a.nc'']
               \<and> scan_err_log (ctx_out st') = ''/tmp/scan.err''
               \<and> results_out st' = [Some True]))"
proof -
  let ?h = "ex_handlers (Some ''v20200101'') ''bbb''"
  let ?c = "ex_pctx True None"
  let ?c' = "ex_pctx False (Some ''cmds.txt'')"
  let ?run = "run ?h ex_os ex_evaluate ''alice'' ?c ex_tree Map.empty"
  note t = C7_checkpoint_round_trip[where h = ?h and w = ex_os and ev = ex_evaluate and user = "''alice''"
      and ctx = ?c and tinit = ex_tree and fs = Map.empty and ctx' = ?c'
      and h' = "ex_handlers None ''ccc''" and w' = ex_os and ev' = ex_evaluate and tinit' = ex_tree]
  have c: "scan ?c" "sources ?c = [''/in/a.nc'']" "scan_err_log ?c = ''/tmp/scan.err''"
    "\<not> scan ?c'" "commands_file_ctx ?c' = Some ''cmds.txt''"
    by (simp_all add: ex_pctx_def)
  have tf: "TREE_FILE ''alice'' = ''/tmp/DRSTree_alice.pkl''" by (simp add: TREE_FILE_def)
  have nk: "\<forall>x t. fst (process ?h ex_os (ProcessContext.truncate ?c) x t) \<noteq> Inl KeyboardInterrupt"
    by (intro allI process_not_interrupted) (simp_all add: ex_handlers_def ex_os_def)
  from t[THEN conjunct1] c(1) nk obtain st where s: "?run = Inr st" by blast
  note u = t[where st = st, THEN conjunct2, rule_format, OF s]
  have p: "fst (process ?h ex_os (ProcessContext.truncate ?c) ''/in/a.nc'' ex_tree) = Inr (Some True)"
    "map label (leaves (snd (process ?h ex_os (ProcessContext.truncate ?c) ''/in/a.nc'' ex_tree)))
       = [''a.nc --> ../files/d20200102/a.nc'', ''latest --> v20200102'', ''a.nc'']"
    by code_simp+
  from u c(1) have tr: "tree_out st = snd (process ?h ex_os (ProcessContext.truncate ?c) ''/in/a.nc'' ex_tree)"
    by (simp add: c(2))
  from u c(1) have "length (results_out st) = 1" "results_out st ! 0 = Some True"
    using p(1) by (auto simp: c(2))
  then have rs: "results_out st = [Some True]"
    by (cases "results_out st") auto
  from u c(1) have lg: "scan_err_log (ctx_out st) = ''/tmp/scan.err''"
    "getattribute (ctx_out st) = getattribute ?c"
    by (simp_all add: c(3))
  from u have fo: "files_out st ''/tmp/DRSTree_alice.pkl''
            = Some [PArgs (map (\<lambda>key. (key, getattribute ?c key)) CONTROLLED_ARGS),
                    PTree (tree_out st), PLog ''/tmp/scan.err'', PResults [Some True]]"
    by (simp add: tf lg rs)
  from u c(4) obtain st' where s': "run (ex_handlers None ''ccc'') ex_os ex_evaluate ''alice'' ?c' ex_tree (files_out st) = Inr st'"
    and r': "tree_out st' = (tree_out st)\<lparr>commands_file := commands_file_ctx ?c'\<rparr>"
      "scan_err_log (ctx_out st') = scan_err_log (ctx_out st)" "results_out st' = results_out st"
    by blast
  show ?thesis
    using s s' r' tr p(2) rs lg fo c(5) by simp
qed

end
